theory Spec2Isabelle
  imports Main
begin

section \<open>Data model of the subnet reconciler\<close>

text \<open>
  The development embeds \<^verbatim>\<open>subnetReconciler.Reconcile\<close> of
  \<^verbatim>\<open>pkg/daemon/controller/subnet.go\<close>. The objects it reads from the cluster are
  records; the address types \<^verbatim>\<open>net.IP\<close> and \<^verbatim>\<open>*net.IPNet\<close> are only passed
  on by the reconciler and are kept as strings; an optional \<^verbatim>\<open>NetID\<close> pointer is an
  \<open>option\<close>.
\<close>

type_synonym netid = nat

datatype IPVersion = IPv4 | IPv6

text \<open>
  \<^verbatim>\<open>NetworkType\<close> is compared against the two constants named in the
  \<^verbatim>\<open>switch\<close> of the reconciler. The \<^verbatim>\<open>switch\<close> has no default branch, so a third
  constructor stands for every value that is neither of them.
\<close>

datatype NetworkType = NetworkTypeUnderlay | NetworkTypeOverlay | NetworkTypeOther

record AddressRange =
  Version :: IPVersion
  CIDR :: string
  Gateway :: string
  Start :: string
  End :: string
  ExcludeIPs :: "string list"

record Subnet =
  subnet_Name :: string
  subnet_Network :: string
  subnet_NetID :: "netid option"
  subnet_Range :: AddressRange
  subnet_AutoNatOutgoing :: bool

record Network =
  network_NetID :: "netid option"
  network_Type :: NetworkType
  network_NodeList :: "string list"

record RemoteSubnet =
  remote_Name :: string
  remote_Range :: AddressRange
  remote_Type :: NetworkType

text \<open>The fields of \<^verbatim>\<open>ctrlHubRef.config\<close> that the reconciler reads.\<close>

record Config =
  NodeName :: string
  NodeVlanIfName :: string
  NodeVxlanIfName :: string

text \<open>
  The arguments of \<^verbatim>\<open>AddSubnetInfo\<close> and of \<^verbatim>\<open>AddRemoteSubnetInfo\<close>, in the
  order of the call.
\<close>

record SubnetInfo =
  cidr :: string
  gateway :: string
  startIP :: string
  endIP :: string
  excludeIPs :: "string list"
  forwardNodeIfName :: string
  autoNatOutgoing :: bool
  isOverlay :: bool
  isUnderlayLocal :: bool

record RemoteSubnetInfo =
  r_cidr :: string
  r_gateway :: string
  r_startIP :: string
  r_endIP :: string
  r_excludeIPs :: "string list"
  r_isOverlay :: bool

text \<open>
  Errors are values. \<open>Collaborator\<close> is an error handed back by a callee; the other
  constructors are the \<^verbatim>\<open>fmt.Errorf\<close> messages of the reconciler, one per return site,
  with the formatted arguments.
\<close>

datatype error =
    Collaborator string
  | FailedToListSubnet error
  | FailedToGetNetwork string
  | FailedToParseRange string error
  | FailedToEnsureVlan error
  | FailedToGenerateVxlanName error
  | FailedToListRemoteSubnet error
  | FailedToAddRemoteSubnetInfo error
  | FailedToSyncV4 error
  | FailedToCheckIPv6 error
  | FailedToSyncV6 error

text \<open>\<^verbatim>\<open>reconcile.Result\<close>: only the \<^verbatim>\<open>Requeue\<close> field is ever set.\<close>

record Result =
  Requeue :: bool

text \<open>
  The two Route Manager instances of the hub are told apart by a reference. The hub
  state holds the in-memory state of both managers (of an arbitrary type \<open>'rm\<close>), the
  host's link devices \<open>'l\<close> and the kernel routing state \<open>'k\<close>.
\<close>

datatype manager_ref = RouteV4 | RouteV6

record ('rm, 'l, 'k) hub =
  routeV4Manager :: 'rm
  routeV6Manager :: 'rm
  links :: 'l
  routes :: 'k

text \<open>
  Every call that leaves the reconciler is recorded, in order, with its arguments; the
  calls whose outcome depends on the state at the time of the call carry the outcome.
\<close>

datatype event =
    CallListSubnets
  | CallGetNetwork string
  | CallResetInfos manager_ref
  | CallEnsureVlanIf string "netid option" "error + string"
  | CallGenerateVxlanNetIfName string "netid option"
  | CallAddSubnetInfo manager_ref SubnetInfo
  | CallListRemoteSubnets
  | CallAddRemoteSubnetInfo manager_ref RemoteSubnetInfo "error option"
  | CallSyncRoutes manager_ref "error option"
  | CallCheckIPv6GlobalDisabled
  | CallIptablesSyncTrigger

section \<open>Collaborators\<close>

text \<open>
  The reconciler calls code that is not part of \<^verbatim>\<open>subnet.go\<close>: the cluster client
  (\<^verbatim>\<open>r.List\<close>, \<^verbatim>\<open>r.Get\<close>), the accessors of the API package, the range parser, the
  interface provisioner, the feature gate, the host capability check and the methods
  of the Route Manager. They are parameters of the model, so every theorem holds for
  any implementation of them. The cluster client answers from one snapshot during a
  pass.
\<close>

record ('rm, 'l, 'k) env =
  ListSubnets :: "error + Subnet list"
  GetNetwork :: "string \<Rightarrow> error + Network"
  GetNetworkType :: "Network \<Rightarrow> NetworkType"
  parseSubnetSpecRangeMeta ::
    "AddressRange \<Rightarrow> error + (string \<times> string \<times> string \<times> string \<times> string list \<times> IPVersion)"
  EnsureVlanIf :: "string \<Rightarrow> netid option \<Rightarrow> 'l \<Rightarrow> (error + string) \<times> 'l"
  GenerateVxlanNetIfName :: "string \<Rightarrow> netid option \<Rightarrow> error + string"
  IsSubnetAutoNatOutgoing :: "Subnet \<Rightarrow> bool"
  MultiClusterEnabled :: bool
  ListRemoteSubnets :: "error + RemoteSubnet list"
  GetRemoteSubnetType :: "RemoteSubnet \<Rightarrow> NetworkType"
  ResetInfos :: "'rm \<Rightarrow> 'rm"
  AddSubnetInfo :: "SubnetInfo \<Rightarrow> 'rm \<Rightarrow> 'rm"
  AddRemoteSubnetInfo :: "RemoteSubnetInfo \<Rightarrow> 'rm \<Rightarrow> error option \<times> 'rm"
  SyncRoutes :: "'rm \<Rightarrow> 'l \<Rightarrow> 'k \<Rightarrow> error option \<times> 'rm \<times> 'k"
  CheckIPv6GlobalDisabled :: "error + bool"

text \<open>
  Modelled from the spec: \<^verbatim>\<open>CtrlHub.getRouterManager\<close> is not in the sources at hand.
  The spec has one Route Manager per address family and feeds every record "into the
  Route Manager selected by the range's IP version".
\<close>

fun getRouterManager :: "IPVersion \<Rightarrow> manager_ref" where
  "getRouterManager IPv4 = RouteV4"
| "getRouterManager IPv6 = RouteV6"

definition managerOf :: "manager_ref \<Rightarrow> ('rm, 'l, 'k) hub \<Rightarrow> 'rm" where
  "managerOf m s = (case m of RouteV4 \<Rightarrow> routeV4Manager s | RouteV6 \<Rightarrow> routeV6Manager s)"

definition setManager :: "manager_ref \<Rightarrow> 'rm \<Rightarrow> ('rm, 'l, 'k) hub \<Rightarrow> ('rm, 'l, 'k) hub" where
  "setManager m v s =
     (case m of RouteV4 \<Rightarrow> s\<lparr>routeV4Manager := v\<rparr> | RouteV6 \<Rightarrow> s\<lparr>routeV6Manager := v\<rparr>)"

section \<open>The reconciler\<close>

text \<open>
  Lines 62 to 67: the loop over \<^verbatim>\<open>network.Status.NodeList\<close> that sets the flag and
  breaks at the first entry equal to the node's name.
\<close>

fun nodeListLoop :: "string list \<Rightarrow> string \<Rightarrow> bool" where
  "nodeListLoop [] nodeName = False"
| "nodeListLoop (n # ns) nodeName = (if n = nodeName then True else nodeListLoop ns nodeName)"

text \<open>Lines 59 to 68.\<close>

definition isUnderlayOnHost ::
  "('rm, 'l, 'k) env \<Rightarrow> Config \<Rightarrow> Network \<Rightarrow> bool" where
  "isUnderlayOnHost env cfg network =
     (if GetNetworkType env network = NetworkTypeUnderlay
      then nodeListLoop (network_NodeList network) (NodeName cfg)
      else False)"

text \<open>Lines 72 to 75.\<close>

definition resolveNetID :: "Subnet \<Rightarrow> Network \<Rightarrow> netid option" where
  "resolveNetID subnet network =
     (case subnet_NetID subnet of None \<Rightarrow> network_NetID network | Some v \<Rightarrow> Some v)"

text \<open>
  Lines 84 to 102: the \<^verbatim>\<open>switch\<close> on the network type. It yields the forwarding
  interface name and the two flags, which start as the zero values of their types,
  or the error of the failed call; it returns the calls made and the link state.
\<close>

definition forwardSwitch ::
  "('rm, 'l, 'k) env \<Rightarrow> Config \<Rightarrow> Subnet \<Rightarrow> Network \<Rightarrow> 'l \<Rightarrow>
     (error + string \<times> bool \<times> bool) \<times> event list \<times> 'l" where
  "forwardSwitch env cfg subnet network l =
     (let netID = resolveNetID subnet network in
      case GetNetworkType env network of
        NetworkTypeUnderlay \<Rightarrow>
          if isUnderlayOnHost env cfg network then
            (case EnsureVlanIf env (NodeVlanIfName cfg) netID l of
               (Inl err, l') \<Rightarrow>
                 (Inl (FailedToEnsureVlan err),
                  [CallEnsureVlanIf (NodeVlanIfName cfg) netID (Inl err)], l')
             | (Inr name, l') \<Rightarrow>
                 (Inr (name, False, False),
                  [CallEnsureVlanIf (NodeVlanIfName cfg) netID (Inr name)], l'))
          else (Inr ('''', False, False), [], l)
      | NetworkTypeOverlay \<Rightarrow>
          (case GenerateVxlanNetIfName env (NodeVxlanIfName cfg) netID of
             Inl err \<Rightarrow>
               (Inl (FailedToGenerateVxlanName err),
                [CallGenerateVxlanNetIfName (NodeVxlanIfName cfg) netID], l)
           | Inr name \<Rightarrow>
               (Inr (name, IsSubnetAutoNatOutgoing env subnet, True),
                [CallGenerateVxlanNetIfName (NodeVxlanIfName cfg) netID], l))
      | NetworkTypeOther \<Rightarrow> (Inr ('''', False, False), [], l))"

text \<open>
  Lines 54 to 107: the body of the loop over the subnets. The result is the error
  of an early return (or \<open>None\<close>), the calls made, and the hub state.
\<close>

definition reconcileSubnet ::
  "('rm, 'l, 'k) env \<Rightarrow> Config \<Rightarrow> Subnet \<Rightarrow> ('rm, 'l, 'k) hub \<Rightarrow>
     error option \<times> event list \<times> ('rm, 'l, 'k) hub" where
  "reconcileSubnet env cfg subnet s =
     (case GetNetwork env (subnet_Network subnet) of
        Inl err \<Rightarrow>
          (Some (FailedToGetNetwork (subnet_Name subnet)),
           [CallGetNetwork (subnet_Network subnet)], s)
      | Inr network \<Rightarrow>
          (case parseSubnetSpecRangeMeta env (subnet_Range subnet) of
             Inl err \<Rightarrow>
               (Some (FailedToParseRange (subnet_Name subnet) err),
                [CallGetNetwork (subnet_Network subnet)], s)
           | Inr (subnetCidr, gatewayIP, startIP', endIP', excludeIPs', _) \<Rightarrow>
               (case forwardSwitch env cfg subnet network (links s) of
                  (Inl err, evs, l') \<Rightarrow>
                    (Some err, CallGetNetwork (subnet_Network subnet) # evs, s\<lparr>links := l'\<rparr>)
                | (Inr (ifName, nat', overlay), evs, l') \<Rightarrow>
                    (let routeManager = getRouterManager (Version (subnet_Range subnet));
                         info = \<lparr>cidr = subnetCidr, gateway = gatewayIP, startIP = startIP',
                                 endIP = endIP', excludeIPs = excludeIPs',
                                 forwardNodeIfName = ifName, autoNatOutgoing = nat',
                                 isOverlay = overlay,
                                 isUnderlayLocal = isUnderlayOnHost env cfg network\<rparr>;
                         s1 = s\<lparr>links := l'\<rparr>
                     in (None,
                         CallGetNetwork (subnet_Network subnet) # evs
                           @ [CallAddSubnetInfo routeManager info],
                         setManager routeManager
                           (AddSubnetInfo env info (managerOf routeManager s1)) s1)))))"

text \<open>Lines 53 to 108: the loop stops at the first subnet whose body returns.\<close>

fun subnetLoop ::
  "('rm, 'l, 'k) env \<Rightarrow> Config \<Rightarrow> Subnet list \<Rightarrow> ('rm, 'l, 'k) hub \<Rightarrow>
     error option \<times> event list \<times> ('rm, 'l, 'k) hub" where
  "subnetLoop env cfg [] s = (None, [], s)"
| "subnetLoop env cfg (subnet # rest) s =
     (case reconcileSubnet env cfg subnet s of
        (Some err, evs, s1) \<Rightarrow> (Some err, evs, s1)
      | (None, evs, s1) \<Rightarrow>
          (case subnetLoop env cfg rest s1 of (r, evs', s2) \<Rightarrow> (r, evs @ evs', s2)))"

text \<open>Lines 119 to 133: the body of the loop over the remote subnets.\<close>

definition reconcileRemoteSubnet ::
  "('rm, 'l, 'k) env \<Rightarrow> RemoteSubnet \<Rightarrow> ('rm, 'l, 'k) hub \<Rightarrow>
     error option \<times> event list \<times> ('rm, 'l, 'k) hub" where
  "reconcileRemoteSubnet env remoteSubnet s =
     (case parseSubnetSpecRangeMeta env (remote_Range remoteSubnet) of
        Inl err \<Rightarrow> (Some (FailedToParseRange (remote_Name remoteSubnet) err), [], s)
      | Inr (subnetCidr, gatewayIP, startIP', endIP', excludeIPs', _) \<Rightarrow>
          (let overlay = (GetRemoteSubnetType env remoteSubnet = NetworkTypeOverlay);
               routeManager = getRouterManager (Version (remote_Range remoteSubnet));
               info = \<lparr>r_cidr = subnetCidr, r_gateway = gatewayIP, r_startIP = startIP',
                       r_endIP = endIP', r_excludeIPs = excludeIPs', r_isOverlay = overlay\<rparr>
           in case AddRemoteSubnetInfo env info (managerOf routeManager s) of
                (Some err, m') \<Rightarrow>
                  (Some (FailedToAddRemoteSubnetInfo err),
                   [CallAddRemoteSubnetInfo routeManager info (Some err)],
                   setManager routeManager m' s)
              | (None, m') \<Rightarrow>
                  (None, [CallAddRemoteSubnetInfo routeManager info None],
                   setManager routeManager m' s)))"

text \<open>Lines 118 to 134.\<close>

fun remoteSubnetLoop ::
  "('rm, 'l, 'k) env \<Rightarrow> RemoteSubnet list \<Rightarrow> ('rm, 'l, 'k) hub \<Rightarrow>
     error option \<times> event list \<times> ('rm, 'l, 'k) hub" where
  "remoteSubnetLoop env [] s = (None, [], s)"
| "remoteSubnetLoop env (remoteSubnet # rest) s =
     (case reconcileRemoteSubnet env remoteSubnet s of
        (Some err, evs, s1) \<Rightarrow> (Some err, evs, s1)
      | (None, evs, s1) \<Rightarrow>
          (case remoteSubnetLoop env rest s1 of (r, evs', s2) \<Rightarrow> (r, evs @ evs', s2)))"

text \<open>Lines 110 to 135: the block guarded by \<^verbatim>\<open>feature.MultiClusterEnabled()\<close>.\<close>

definition remoteStage ::
  "('rm, 'l, 'k) env \<Rightarrow> ('rm, 'l, 'k) hub \<Rightarrow>
     error option \<times> event list \<times> ('rm, 'l, 'k) hub" where
  "remoteStage env s =
     (if MultiClusterEnabled env then
        (case ListRemoteSubnets env of
           Inl err \<Rightarrow> (Some (FailedToListRemoteSubnet err), [CallListRemoteSubnets], s)
         | Inr remoteSubnetList \<Rightarrow>
             (case remoteSubnetLoop env remoteSubnetList s of
                (r, evs, s1) \<Rightarrow> (r, CallListRemoteSubnets # evs, s1)))
      else (None, [], s))"

text \<open>
  Lines 45 to 135: everything before the first \<^verbatim>\<open>SyncRoutes\<close>, that is, the staging
  of the desired state in the two Route Managers.
\<close>

definition stageDesiredState ::
  "('rm, 'l, 'k) env \<Rightarrow> Config \<Rightarrow> ('rm, 'l, 'k) hub \<Rightarrow>
     error option \<times> event list \<times> ('rm, 'l, 'k) hub" where
  "stageDesiredState env cfg s =
     (case ListSubnets env of
        Inl err \<Rightarrow> (Some (FailedToListSubnet err), [CallListSubnets], s)
      | Inr subnetList \<Rightarrow>
          (let s0 = s\<lparr>routeV4Manager := ResetInfos env (routeV4Manager s),
                      routeV6Manager := ResetInfos env (routeV6Manager s)\<rparr>
           in case subnetLoop env cfg subnetList s0 of
                (Some err, evs, s1) \<Rightarrow>
                  (Some err,
                   [CallListSubnets, CallResetInfos RouteV4, CallResetInfos RouteV6] @ evs, s1)
              | (None, evs, s1) \<Rightarrow>
                  (case remoteStage env s1 of
                     (r, evs', s2) \<Rightarrow>
                       (r, [CallListSubnets, CallResetInfos RouteV4, CallResetInfos RouteV6]
                             @ evs @ evs', s2))))"

text \<open>
  Lines 137 to 154: the synchronisation of the kernel with the staged state, and the
  trigger of the iptables synchronisation.
\<close>

definition syncStage ::
  "('rm, 'l, 'k) env \<Rightarrow> ('rm, 'l, 'k) hub \<Rightarrow>
     (Result \<times> error option) \<times> event list \<times> ('rm, 'l, 'k) hub" where
  "syncStage env s =
     (case SyncRoutes env (routeV4Manager s) (links s) (routes s) of
        (Some err, m4, k4) \<Rightarrow>
          ((\<lparr>Requeue = True\<rparr>, Some (FailedToSyncV4 err)),
           [CallSyncRoutes RouteV4 (Some err)],
           s\<lparr>routeV4Manager := m4, routes := k4\<rparr>)
      | (None, m4, k4) \<Rightarrow>
          (let s4 = s\<lparr>routeV4Manager := m4, routes := k4\<rparr> in
           case CheckIPv6GlobalDisabled env of
             Inl err \<Rightarrow>
               ((\<lparr>Requeue = True\<rparr>, Some (FailedToCheckIPv6 err)),
                [CallSyncRoutes RouteV4 None, CallCheckIPv6GlobalDisabled], s4)
           | Inr globalDisabled \<Rightarrow>
               if \<not> globalDisabled then
                 (case SyncRoutes env (routeV6Manager s4) (links s4) (routes s4) of
                    (Some err, m6, k6) \<Rightarrow>
                      ((\<lparr>Requeue = True\<rparr>, Some (FailedToSyncV6 err)),
                       [CallSyncRoutes RouteV4 None, CallCheckIPv6GlobalDisabled,
                        CallSyncRoutes RouteV6 (Some err)],
                       s4\<lparr>routeV6Manager := m6, routes := k6\<rparr>)
                  | (None, m6, k6) \<Rightarrow>
                      ((\<lparr>Requeue = False\<rparr>, None),
                       [CallSyncRoutes RouteV4 None, CallCheckIPv6GlobalDisabled,
                        CallSyncRoutes RouteV6 None, CallIptablesSyncTrigger],
                       s4\<lparr>routeV6Manager := m6, routes := k6\<rparr>))
               else
                 ((\<lparr>Requeue = False\<rparr>, None),
                  [CallSyncRoutes RouteV4 None, CallCheckIPv6GlobalDisabled,
                   CallIptablesSyncTrigger], s4)))"

text \<open>
  \<^verbatim>\<open>subnetReconciler.Reconcile\<close>, lines 41 to 155. It returns the pair of
  \<^verbatim>\<open>reconcile.Result\<close> and error, the calls of the pass in order, and the hub state
  the pass leaves behind.
\<close>

definition Reconcile ::
  "('rm, 'l, 'k) env \<Rightarrow> Config \<Rightarrow> ('rm, 'l, 'k) hub \<Rightarrow>
     (Result \<times> error option) \<times> event list \<times> ('rm, 'l, 'k) hub" where
  "Reconcile env cfg s =
     (case stageDesiredState env cfg s of
        (Some err, evs, s1) \<Rightarrow> ((\<lparr>Requeue = True\<rparr>, Some err), evs, s1)
      | (None, evs, s1) \<Rightarrow>
          (case syncStage env s1 of (res, evs', s2) \<Rightarrow> (res, evs @ evs', s2)))"

section \<open>Observations on a pass\<close>

text \<open>
  A pass is the triple returned by \<open>Reconcile\<close>; the loop body and the stages return
  their calls and hub state in the same positions.
\<close>

abbreviation callsOf :: "'a \<times> event list \<times> 'h \<Rightarrow> event list" where
  "callsOf p \<equiv> fst (snd p)"

abbreviation hubOf :: "'a \<times> event list \<times> 'h \<Rightarrow> 'h" where
  "hubOf p \<equiv> snd (snd p)"

abbreviation resultOf :: "(Result \<times> error option) \<times> event list \<times> 'h \<Rightarrow> Result" where
  "resultOf p \<equiv> fst (fst p)"

abbreviation errorOf :: "(Result \<times> error option) \<times> event list \<times> 'h \<Rightarrow> error option" where
  "errorOf p \<equiv> snd (fst p)"

text \<open>The \<^verbatim>\<open>AddSubnetInfo\<close> calls of a trace, in order, with the manager called.\<close>

fun addedSubnetInfos :: "event list \<Rightarrow> (manager_ref \<times> SubnetInfo) list" where
  "addedSubnetInfos [] = []"
| "addedSubnetInfos (CallAddSubnetInfo m info # evs) = (m, info) # addedSubnetInfos evs"
| "addedSubnetInfos (_ # evs) = addedSubnetInfos evs"

text \<open>The \<^verbatim>\<open>AddRemoteSubnetInfo\<close> calls of a trace, whatever their outcome.\<close>

fun addedRemoteSubnetInfos :: "event list \<Rightarrow> (manager_ref \<times> RemoteSubnetInfo) list" where
  "addedRemoteSubnetInfos [] = []"
| "addedRemoteSubnetInfos (CallAddRemoteSubnetInfo m info out # evs) =
     (m, info) # addedRemoteSubnetInfos evs"
| "addedRemoteSubnetInfos (_ # evs) = addedRemoteSubnetInfos evs"

text \<open>The \<^verbatim>\<open>SyncRoutes\<close> calls of a trace, with their outcomes.\<close>

fun syncCalls :: "event list \<Rightarrow> (manager_ref \<times> error option) list" where
  "syncCalls [] = []"
| "syncCalls (CallSyncRoutes m out # evs) = (m, out) # syncCalls evs"
| "syncCalls (_ # evs) = syncCalls evs"

text \<open>
  Calls are sorted by the part of the reconciler that makes them: the loop over the
  subnets, the block of the remote subnets, and everything up to line 135.
\<close>

fun subnetCall :: "event \<Rightarrow> bool" where
  "subnetCall (CallGetNetwork n) = True"
| "subnetCall (CallEnsureVlanIf b i out) = True"
| "subnetCall (CallGenerateVxlanNetIfName b i) = True"
| "subnetCall (CallAddSubnetInfo m info) = True"
| "subnetCall _ = False"

fun remoteCall :: "event \<Rightarrow> bool" where
  "remoteCall CallListRemoteSubnets = True"
| "remoteCall (CallAddRemoteSubnetInfo m info out) = True"
| "remoteCall _ = False"

fun stagingCall :: "event \<Rightarrow> bool" where
  "stagingCall (CallSyncRoutes m out) = False"
| "stagingCall CallCheckIPv6GlobalDisabled = False"
| "stagingCall CallIptablesSyncTrigger = False"
| "stagingCall _ = True"

text \<open>The hub after lines 50 and 51.\<close>

definition resetManagers :: "('rm, 'l, 'k) env \<Rightarrow> ('rm, 'l, 'k) hub \<Rightarrow> ('rm, 'l, 'k) hub" where
  "resetManagers env s =
     s\<lparr>routeV4Manager := ResetInfos env (routeV4Manager s),
       routeV6Manager := ResetInfos env (routeV6Manager s)\<rparr>"

text \<open>
  A pass that was aborted before the synchronisation: it asks for a requeue, returns an
  error, has called \<^verbatim>\<open>SyncRoutes\<close> on neither manager, and has left the kernel
  routing state as it found it.
\<close>

definition abortedBeforeSync ::
  "(Result \<times> error option) \<times> event list \<times> ('rm, 'l, 'k) hub \<Rightarrow> ('rm, 'l, 'k) hub \<Rightarrow> bool" where
  "abortedBeforeSync p s \<longleftrightarrow>
     Requeue (resultOf p) \<and> errorOf p \<noteq> None \<and> syncCalls (callsOf p) = [] \<and>
     routes (hubOf p) = routes s"

section \<open>A concrete cluster\<close>

text \<open>
  One instance of the collaborators, on which the model is run: the scenarios of the
  specification (an underlay network with node list \<open>[node-1]\<close> and \<open>netID\<close> 10, an
  overlay network whose subnet overrides the \<open>netID\<close> and asks for outgoing NAT, a
  remote subnet, and a remote subnet that collides with a local one).
\<close>

text \<open>Decimal digits of a number, for interface names.\<close>

fun showNat :: "nat \<Rightarrow> string" where
  "showNat n =
     (if n < 10 then [''0123456789'' ! n]
      else showNat (n div 10) @ [''0123456789'' ! (n mod 10)])"

declare showNat.simps [simp del]

type_synonym sampleManager = "SubnetInfo list \<times> RemoteSubnetInfo list"

type_synonym sampleRoutes = "(manager_ref \<times> string) list"

text \<open>
  Modelled from the spec: the range parser is not in the sources at hand. It yields
  the fields of the range, or fails with \<open>MalformedRange\<close>; here only an empty CIDR is
  malformed.
\<close>

definition sampleParse ::
  "AddressRange \<Rightarrow> error + (string \<times> string \<times> string \<times> string \<times> string list \<times> IPVersion)" where
  "sampleParse r =
     (if CIDR r = [] then Inl (Collaborator ''MalformedRange'')
      else Inr (CIDR r, Gateway r, Start r, End r, ExcludeIPs r, Version r))"

text \<open>
  Modelled from the spec: \<^verbatim>\<open>EnsureVlanIf\<close> is not in the sources at hand. It names
  the VLAN sub-interface of the base device for the \<open>netID\<close> and creates it if it does
  not exist.
\<close>

definition sampleEnsureVlanIf ::
  "string \<Rightarrow> netid option \<Rightarrow> string list \<Rightarrow> (error + string) \<times> string list" where
  "sampleEnsureVlanIf base netID l =
     (case netID of
        None \<Rightarrow> (Inl (Collaborator ''InterfaceProvisionError''), l)
      | Some v \<Rightarrow>
          (let name = base @ ''.'' @ showNat v
           in (Inr name, if name \<in> set l then l else l @ [name])))"

text \<open>
  Modelled from the spec: \<^verbatim>\<open>GenerateVxlanNetIfName\<close> is not in the sources at hand.
  It is a pure naming function that fails only on an invalid \<open>netID\<close>.
\<close>

definition sampleGenerateVxlanNetIfName :: "string \<Rightarrow> netid option \<Rightarrow> error + string" where
  "sampleGenerateVxlanNetIfName base netID =
     (case netID of
        None \<Rightarrow> Inl (Collaborator ''invalid netID'')
      | Some v \<Rightarrow> Inr (base @ ''.vxlan'' @ showNat v))"

text \<open>
  Modelled from the spec: the Route Manager is not in the sources at hand. It holds the
  local and the remote records; \<^verbatim>\<open>AddRemoteSubnetInfo\<close> fails with
  \<open>RemoteSubnetConflict\<close> if the CIDR collides with a registered local or remote
  entry (here: is equal to one).
\<close>

definition sampleAddRemoteSubnetInfo ::
  "RemoteSubnetInfo \<Rightarrow> sampleManager \<Rightarrow> error option \<times> sampleManager" where
  "sampleAddRemoteSubnetInfo info m =
     (if r_cidr info \<in> set (map cidr (fst m)) \<union> set (map r_cidr (snd m))
      then (Some (Collaborator ''RemoteSubnetConflict''), m)
      else (None, (fst m, snd m @ [info])))"

text \<open>
  Modelled from the spec: \<^verbatim>\<open>SyncRoutes\<close> removes the installed routes of the
  manager's family that are not desired and adds the desired ones that are missing.
\<close>

definition sampleSyncRoutes ::
  "manager_ref \<Rightarrow> sampleManager \<Rightarrow> string list \<Rightarrow> sampleRoutes \<Rightarrow>
     error option \<times> sampleManager \<times> sampleRoutes" where
  "sampleSyncRoutes family m l k =
     (let desired = map (Pair family) (map cidr (fst m) @ map r_cidr (snd m))
      in (None, m,
          filter (\<lambda>r. fst r \<noteq> family \<or> r \<in> set desired) k
            @ filter (\<lambda>r. r \<notin> set k) desired))"

definition underlayNet :: Network where
  "underlayNet = \<lparr>network_NetID = Some 10, network_Type = NetworkTypeUnderlay,
                   network_NodeList = [''node-1'']\<rparr>"

definition overlayNet :: Network where
  "overlayNet = \<lparr>network_NetID = Some 4, network_Type = NetworkTypeOverlay,
                  network_NodeList = []\<rparr>"

definition sampleGetNetwork :: "string \<Rightarrow> error + Network" where
  "sampleGetNetwork name =
     (if name = ''underlay-net'' then Inr underlayNet
      else if name = ''overlay-net'' then Inr overlayNet
      else Inl (Collaborator ''not found''))"

definition subnetA :: Subnet where
  "subnetA = \<lparr>subnet_Name = ''subnet-a'', subnet_Network = ''underlay-net'',
               subnet_NetID = None,
               subnet_Range = \<lparr>Version = IPv4, CIDR = ''10.0.0.0/24'', Gateway = ''10.0.0.1'',
                                Start = ''10.0.0.10'', End = ''10.0.0.200'', ExcludeIPs = []\<rparr>,
               subnet_AutoNatOutgoing = True\<rparr>"

definition subnetC :: Subnet where
  "subnetC = \<lparr>subnet_Name = ''subnet-c'', subnet_Network = ''overlay-net'',
               subnet_NetID = Some 7,
               subnet_Range = \<lparr>Version = IPv6, CIDR = ''fd00::/64'', Gateway = ''fd00::1'',
                                Start = ''fd00::10'', End = ''fd00::ff'', ExcludeIPs = []\<rparr>,
               subnet_AutoNatOutgoing = True\<rparr>"

definition remoteR :: RemoteSubnet where
  "remoteR = \<lparr>remote_Name = ''remote-r'',
               remote_Range = \<lparr>Version = IPv4, CIDR = ''10.1.0.0/24'', Gateway = ''10.1.0.1'',
                                Start = ''10.1.0.10'', End = ''10.1.0.200'', ExcludeIPs = []\<rparr>,
               remote_Type = NetworkTypeOverlay\<rparr>"

definition remoteD :: RemoteSubnet where
  "remoteD = \<lparr>remote_Name = ''remote-d'',
               remote_Range = \<lparr>Version = IPv4, CIDR = ''10.0.0.0/24'', Gateway = ''10.0.0.1'',
                                Start = ''10.0.0.10'', End = ''10.0.0.200'', ExcludeIPs = []\<rparr>,
               remote_Type = NetworkTypeUnderlay\<rparr>"

definition sampleEnv :: "(manager_ref \<times> sampleManager, string list, sampleRoutes) env" where
  "sampleEnv =
     \<lparr>ListSubnets = Inr [subnetA, subnetC],
      GetNetwork = sampleGetNetwork,
      GetNetworkType = network_Type,
      parseSubnetSpecRangeMeta = sampleParse,
      EnsureVlanIf = sampleEnsureVlanIf,
      GenerateVxlanNetIfName = sampleGenerateVxlanNetIfName,
      IsSubnetAutoNatOutgoing = subnet_AutoNatOutgoing,
      MultiClusterEnabled = True,
      ListRemoteSubnets = Inr [remoteR],
      GetRemoteSubnetType = remote_Type,
      ResetInfos = (\<lambda>(family, m). (family, [], [])),
      AddSubnetInfo = (\<lambda>info (family, m). (family, fst m @ [info], snd m)),
      AddRemoteSubnetInfo =
        (\<lambda>info (family, m).
           case sampleAddRemoteSubnetInfo info m of (out, m') \<Rightarrow> (out, family, m')),
      SyncRoutes =
        (\<lambda>(family, m) l k.
           case sampleSyncRoutes family m l k of (out, m', k') \<Rightarrow> (out, (family, m'), k')),
      CheckIPv6GlobalDisabled = Inr False\<rparr>"

definition node1 :: Config where
  "node1 = \<lparr>NodeName = ''node-1'', NodeVlanIfName = ''eth0'', NodeVxlanIfName = ''eth0''\<rparr>"

definition node2 :: Config where
  "node2 = \<lparr>NodeName = ''node-2'', NodeVlanIfName = ''eth0'', NodeVxlanIfName = ''eth0''\<rparr>"

text \<open>A hub that still holds a record and a route of an earlier pass.\<close>

definition staleInfo :: SubnetInfo where
  "staleInfo = \<lparr>cidr = ''192.168.0.0/16'', gateway = ''192.168.0.1'', startIP = ''192.168.0.2'',
                 endIP = ''192.168.0.9'', excludeIPs = [], forwardNodeIfName = ''eth0.99'',
                 autoNatOutgoing = False, isOverlay = False, isUnderlayLocal = True\<rparr>"

definition hub0 :: "(manager_ref \<times> sampleManager, string list, sampleRoutes) hub" where
  "hub0 = \<lparr>routeV4Manager = (RouteV4, [staleInfo], []), routeV6Manager = (RouteV6, [], []),
            links = [''eth0''], routes = [(RouteV4, ''192.168.0.0/16'')]\<rparr>"

text \<open>Variants of the cluster in which one collaborator fails or answers differently.\<close>

definition listFailsEnv :: "(manager_ref \<times> sampleManager, string list, sampleRoutes) env" where
  "listFailsEnv = sampleEnv\<lparr>ListSubnets := Inl (Collaborator ''timeout'')\<rparr>"

definition noNetworkEnv :: "(manager_ref \<times> sampleManager, string list, sampleRoutes) env" where
  "noNetworkEnv = sampleEnv\<lparr>GetNetwork := (\<lambda>name. Inl (Collaborator ''not found''))\<rparr>"

definition subnetBad :: Subnet where
  "subnetBad = subnetC\<lparr>subnet_Range := (subnet_Range subnetC)\<lparr>CIDR := []\<rparr>\<rparr>"

definition badRangeEnv :: "(manager_ref \<times> sampleManager, string list, sampleRoutes) env" where
  "badRangeEnv = sampleEnv\<lparr>ListSubnets := Inr [subnetA, subnetBad]\<rparr>"

definition noNetIDEnv :: "(manager_ref \<times> sampleManager, string list, sampleRoutes) env" where
  "noNetIDEnv = sampleEnv\<lparr>GetNetwork := (\<lambda>name. Inr (underlayNet\<lparr>network_NetID := None\<rparr>))\<rparr>"

definition remoteListFailsEnv ::
  "(manager_ref \<times> sampleManager, string list, sampleRoutes) env" where
  "remoteListFailsEnv = sampleEnv\<lparr>ListRemoteSubnets := Inl (Collaborator ''timeout'')\<rparr>"

definition remoteBad :: RemoteSubnet where
  "remoteBad = remoteR\<lparr>remote_Range := (remote_Range remoteR)\<lparr>CIDR := []\<rparr>\<rparr>"

definition badRemoteRangeEnv ::
  "(manager_ref \<times> sampleManager, string list, sampleRoutes) env" where
  "badRemoteRangeEnv = sampleEnv\<lparr>ListRemoteSubnets := Inr [remoteR, remoteBad]\<rparr>"

definition conflictEnv :: "(manager_ref \<times> sampleManager, string list, sampleRoutes) env" where
  "conflictEnv = sampleEnv\<lparr>ListRemoteSubnets := Inr [remoteR, remoteD]\<rparr>"

definition singleClusterEnv ::
  "(manager_ref \<times> sampleManager, string list, sampleRoutes) env" where
  "singleClusterEnv = sampleEnv\<lparr>MultiClusterEnabled := False\<rparr>"

definition ipv6DisabledEnv :: "(manager_ref \<times> sampleManager, string list, sampleRoutes) env" where
  "ipv6DisabledEnv = sampleEnv\<lparr>CheckIPv6GlobalDisabled := Inr True\<rparr>"

definition ipv6CheckFailsEnv ::
  "(manager_ref \<times> sampleManager, string list, sampleRoutes) env" where
  "ipv6CheckFailsEnv = sampleEnv\<lparr>CheckIPv6GlobalDisabled := Inl (Collaborator ''sysctl'')\<rparr>"

lemmas sample_defs =
  sampleEnv_def node1_def node2_def hub0_def sampleParse_def sampleEnsureVlanIf_def
  sampleGenerateVxlanNetIfName_def sampleAddRemoteSubnetInfo_def sampleSyncRoutes_def
  sampleGetNetwork_def underlayNet_def overlayNet_def subnetA_def subnetC_def remoteR_def
  remoteD_def staleInfo_def showNat.simps listFailsEnv_def noNetworkEnv_def subnetBad_def
  badRangeEnv_def noNetIDEnv_def remoteListFailsEnv_def remoteBad_def badRemoteRangeEnv_def
  conflictEnv_def singleClusterEnv_def ipv6DisabledEnv_def ipv6CheckFailsEnv_def

lemmas reconciler_defs =
  Reconcile_def stageDesiredState_def syncStage_def remoteStage_def reconcileSubnet_def
  reconcileRemoteSubnet_def forwardSwitch_def isUnderlayOnHost_def resolveNetID_def
  managerOf_def setManager_def Let_def

section \<open>Structure of a pass\<close>


lemma nodeListLoop_iff: "nodeListLoop ns n \<longleftrightarrow> n \<in> set ns"
  by (induction ns) auto

lemma addedSubnetInfos_append:
  "addedSubnetInfos (xs @ ys) = addedSubnetInfos xs @ addedSubnetInfos ys"
  by (induction xs rule: addedSubnetInfos.induct) simp_all

lemma addedRemoteSubnetInfos_append:
  "addedRemoteSubnetInfos (xs @ ys) = addedRemoteSubnetInfos xs @ addedRemoteSubnetInfos ys"
  by (induction xs rule: addedRemoteSubnetInfos.induct) simp_all

lemma forwardSwitch_cases:
  assumes "forwardSwitch env cfg subnet network l = (r, evs, l')"
  shows "(GetNetworkType env network = NetworkTypeUnderlay \<and> isUnderlayOnHost env cfg network \<and>
          (\<exists>out. EnsureVlanIf env (NodeVlanIfName cfg) (resolveNetID subnet network) l = (out, l') \<and>
             evs = [CallEnsureVlanIf (NodeVlanIfName cfg) (resolveNetID subnet network) out] \<and>
             r = (case out of Inl err \<Rightarrow> Inl (FailedToEnsureVlan err)
                            | Inr name \<Rightarrow> Inr (name, False, False))))
       \<or> (GetNetworkType env network = NetworkTypeUnderlay \<and> \<not> isUnderlayOnHost env cfg network \<and>
          evs = [] \<and> l' = l \<and> r = Inr ('''', False, False))
       \<or> (GetNetworkType env network = NetworkTypeOverlay \<and> l' = l \<and>
          evs = [CallGenerateVxlanNetIfName (NodeVxlanIfName cfg) (resolveNetID subnet network)] \<and>
          r = (case GenerateVxlanNetIfName env (NodeVxlanIfName cfg) (resolveNetID subnet network) of
                 Inl err \<Rightarrow> Inl (FailedToGenerateVxlanName err)
               | Inr name \<Rightarrow> Inr (name, IsSubnetAutoNatOutgoing env subnet, True)))
       \<or> (GetNetworkType env network = NetworkTypeOther \<and>
          evs = [] \<and> l' = l \<and> r = Inr ('''', False, False))"
  using assms
  by (auto simp: forwardSwitch_def Let_def split: NetworkType.splits if_splits prod.splits sum.splits)


lemma forwardSwitch_subnetCall:
  "forwardSwitch env cfg subnet network l = (r, evs, l') \<Longrightarrow> \<forall>ev\<in>set evs. subnetCall ev"
  by (drule forwardSwitch_cases) auto

lemma forwardSwitch_no_add:
  "forwardSwitch env cfg subnet network l = (r, evs, l') \<Longrightarrow> addedSubnetInfos evs = []"
  by (drule forwardSwitch_cases) auto

lemma reconcileSubnet_ok:
  assumes "reconcileSubnet env cfg subnet s = (None, evs, s1)"
  shows "\<exists>network c g st en ex v ifn nt ov evs0 l'.
           GetNetwork env (subnet_Network subnet) = Inr network \<and>
           parseSubnetSpecRangeMeta env (subnet_Range subnet) = Inr (c, g, st, en, ex, v) \<and>
           forwardSwitch env cfg subnet network (links s) = (Inr (ifn, nt, ov), evs0, l') \<and>
           evs = CallGetNetwork (subnet_Network subnet) # evs0
                   @ [CallAddSubnetInfo (getRouterManager (Version (subnet_Range subnet)))
                        \<lparr>cidr = c, gateway = g, startIP = st, endIP = en, excludeIPs = ex,
                         forwardNodeIfName = ifn, autoNatOutgoing = nt, isOverlay = ov,
                         isUnderlayLocal = isUnderlayOnHost env cfg network\<rparr>] \<and>
           routes s1 = routes s"
  using assms
  by (auto simp: reconcileSubnet_def Let_def setManager_def
           split: sum.splits prod.splits manager_ref.splits)

lemma reconcileSubnet_failed:
  assumes "reconcileSubnet env cfg subnet s = (Some e, evs, s1)"
  shows "addedSubnetInfos evs = [] \<and> routes s1 = routes s"
  using assms
  by (auto simp: reconcileSubnet_def Let_def setManager_def
           dest: forwardSwitch_no_add
           split: sum.splits prod.splits manager_ref.splits)

lemma reconcileSubnet_subnetCall:
  assumes "reconcileSubnet env cfg subnet s = (r, evs, s1)"
  shows "\<forall>ev\<in>set evs. subnetCall ev"
  using assms
  by (auto simp: reconcileSubnet_def Let_def
           dest!: forwardSwitch_subnetCall
           split: sum.splits prod.splits)

lemma reconcileSubnet_routes:
  "reconcileSubnet env cfg subnet s = (r, evs, s1) \<Longrightarrow> routes s1 = routes s"
  by (cases r) (auto dest: reconcileSubnet_ok reconcileSubnet_failed)

lemma subnetLoop_subnetCall:
  "subnetLoop env cfg subs s = (r, evs, s1) \<Longrightarrow> \<forall>ev\<in>set evs. subnetCall ev"
proof (induction subs arbitrary: s r evs s1)
  case Nil
  then show ?case by simp
next
  case (Cons subnet rest)
  obtain r0 evs0 s0 where b: "reconcileSubnet env cfg subnet s = (r0, evs0, s0)"
    by (cases "reconcileSubnet env cfg subnet s") auto
  note c0 = reconcileSubnet_subnetCall [OF b]
  show ?case
  proof (cases r0)
    case (Some e)
    with Cons.prems b c0 show ?thesis by simp
  next
    case None
    obtain r1 evs1 s2 where l: "subnetLoop env cfg rest s0 = (r1, evs1, s2)"
      by (cases "subnetLoop env cfg rest s0") auto
    from Cons.IH [OF l] c0 Cons.prems b None l show ?thesis by auto
  qed
qed

lemma subnetLoop_routes:
  "subnetLoop env cfg subs s = (r, evs, s1) \<Longrightarrow> routes s1 = routes s"
proof (induction subs arbitrary: s r evs s1)
  case Nil
  then show ?case by simp
next
  case (Cons subnet rest)
  obtain r0 evs0 s0 where b: "reconcileSubnet env cfg subnet s = (r0, evs0, s0)"
    by (cases "reconcileSubnet env cfg subnet s") auto
  note c0 = reconcileSubnet_routes [OF b]
  show ?case
  proof (cases r0)
    case (Some e)
    with Cons.prems b c0 show ?thesis by simp
  next
    case None
    obtain r1 evs1 s2 where l: "subnetLoop env cfg rest s0 = (r1, evs1, s2)"
      by (cases "subnetLoop env cfg rest s0") auto
    from Cons.IH [OF l] c0 Cons.prems b None l show ?thesis by auto
  qed
qed

text \<open>
  The subnets that a run of the loop has come to register and the registered records
  correspond one to one, in order.
\<close>

lemma subnetLoop_registered:
  assumes step: "\<And>subnet s evs s1. reconcileSubnet env cfg subnet s = (None, evs, s1) \<Longrightarrow>
                   \<exists>m info. addedSubnetInfos evs = [(m, info)] \<and> P subnet (m, info)"
  shows "subnetLoop env cfg subs s = (r, evs, s1) \<Longrightarrow>
           list_all2 P (take (length (addedSubnetInfos evs)) subs) (addedSubnetInfos evs) \<and>
           (r = None \<longrightarrow> length (addedSubnetInfos evs) = length subs)"
proof (induction subs arbitrary: s r evs s1)
  case Nil
  then show ?case by simp
next
  case (Cons subnet rest)
  obtain r0 evs0 s0 where b: "reconcileSubnet env cfg subnet s = (r0, evs0, s0)"
    by (cases "reconcileSubnet env cfg subnet s") auto
  show ?case
  proof (cases r0)
    case (Some e)
    with Cons.prems b have "r = Some e" and "evs = evs0" by auto
    with b Some reconcileSubnet_failed [of env cfg subnet s e evs0 s0]
    show ?thesis by simp
  next
    case None
    obtain r1 evs1 s2 where l: "subnetLoop env cfg rest s0 = (r1, evs1, s2)"
      by (cases "subnetLoop env cfg rest s0") auto
    from step b None obtain m info where
      a: "addedSubnetInfos evs0 = [(m, info)]" and p: "P subnet (m, info)" by blast
    from Cons.prems b None l have e: "evs = evs0 @ evs1" and r: "r = r1" by auto
    from Cons.IH [OF l] a p e r show ?thesis
      by (simp add: addedSubnetInfos_append)
  qed
qed


lemma remoteCall_no_add: "\<forall>ev\<in>set evs. remoteCall ev \<Longrightarrow> addedSubnetInfos evs = []"
  by (induction evs rule: addedSubnetInfos.induct) simp_all

lemma syncCall_no_add: "\<forall>ev\<in>set evs. \<not> stagingCall ev \<Longrightarrow> addedSubnetInfos evs = []"
  by (induction evs rule: addedSubnetInfos.induct) simp_all

lemma subnetCall_no_remote: "\<forall>ev\<in>set evs. subnetCall ev \<Longrightarrow> addedRemoteSubnetInfos evs = []"
  by (induction evs rule: addedRemoteSubnetInfos.induct) simp_all

lemma syncCall_no_remote: "\<forall>ev\<in>set evs. \<not> stagingCall ev \<Longrightarrow> addedRemoteSubnetInfos evs = []"
  by (induction evs rule: addedRemoteSubnetInfos.induct) simp_all

lemma subnetCall_staging: "subnetCall ev \<Longrightarrow> stagingCall ev"
  by (cases ev) simp_all

lemma remoteCall_staging: "remoteCall ev \<Longrightarrow> stagingCall ev"
  by (cases ev) simp_all

lemma reconcileRemoteSubnet_cases:
  assumes "reconcileRemoteSubnet env remoteSubnet s = (r, evs, s1)"
  shows "(\<exists>err. parseSubnetSpecRangeMeta env (remote_Range remoteSubnet) = Inl err \<and>
            r = Some (FailedToParseRange (remote_Name remoteSubnet) err) \<and> evs = [] \<and> s1 = s)
       \<or> (\<exists>c g st en ex v out m'.
            parseSubnetSpecRangeMeta env (remote_Range remoteSubnet) = Inr (c, g, st, en, ex, v) \<and>
            AddRemoteSubnetInfo env
              \<lparr>r_cidr = c, r_gateway = g, r_startIP = st, r_endIP = en, r_excludeIPs = ex,
               r_isOverlay = (GetRemoteSubnetType env remoteSubnet = NetworkTypeOverlay)\<rparr>
              (managerOf (getRouterManager (Version (remote_Range remoteSubnet))) s) = (out, m') \<and>
            r = map_option FailedToAddRemoteSubnetInfo out \<and>
            evs = [CallAddRemoteSubnetInfo (getRouterManager (Version (remote_Range remoteSubnet)))
                     \<lparr>r_cidr = c, r_gateway = g, r_startIP = st, r_endIP = en, r_excludeIPs = ex,
                      r_isOverlay = (GetRemoteSubnetType env remoteSubnet = NetworkTypeOverlay)\<rparr> out] \<and>
            s1 = setManager (getRouterManager (Version (remote_Range remoteSubnet))) m' s)"
  using assms
  by (auto simp: reconcileRemoteSubnet_def Let_def split: sum.splits prod.splits option.splits)

lemma setManager_routes: "routes (setManager m v s) = routes s"
  by (cases m) (simp_all add: setManager_def)

lemma reconcileRemoteSubnet_remoteCall:
  "reconcileRemoteSubnet env remoteSubnet s = (r, evs, s1) \<Longrightarrow> \<forall>ev\<in>set evs. remoteCall ev"
  by (drule reconcileRemoteSubnet_cases) auto

lemma reconcileRemoteSubnet_routes:
  "reconcileRemoteSubnet env remoteSubnet s = (r, evs, s1) \<Longrightarrow> routes s1 = routes s"
  by (drule reconcileRemoteSubnet_cases) (auto simp: setManager_routes)

lemma remoteSubnetLoop_remoteCall:
  "remoteSubnetLoop env rs s = (r, evs, s1) \<Longrightarrow> \<forall>ev\<in>set evs. remoteCall ev"
proof (induction rs arbitrary: s r evs s1)
  case Nil
  then show ?case by simp
next
  case (Cons remoteSubnet rest)
  obtain r0 evs0 s0 where b: "reconcileRemoteSubnet env remoteSubnet s = (r0, evs0, s0)"
    by (cases "reconcileRemoteSubnet env remoteSubnet s") auto
  note c0 = reconcileRemoteSubnet_remoteCall [OF b]
  show ?case
  proof (cases r0)
    case (Some e)
    with Cons.prems b c0 show ?thesis by simp
  next
    case None
    obtain r1 evs1 s2 where l: "remoteSubnetLoop env rest s0 = (r1, evs1, s2)"
      by (cases "remoteSubnetLoop env rest s0") auto
    from Cons.IH [OF l] c0 Cons.prems b None l show ?thesis by auto
  qed
qed

lemma remoteSubnetLoop_routes:
  "remoteSubnetLoop env rs s = (r, evs, s1) \<Longrightarrow> routes s1 = routes s"
proof (induction rs arbitrary: s r evs s1)
  case Nil
  then show ?case by simp
next
  case (Cons remoteSubnet rest)
  obtain r0 evs0 s0 where b: "reconcileRemoteSubnet env remoteSubnet s = (r0, evs0, s0)"
    by (cases "reconcileRemoteSubnet env remoteSubnet s") auto
  note c0 = reconcileRemoteSubnet_routes [OF b]
  show ?case
  proof (cases r0)
    case (Some e)
    with Cons.prems b c0 show ?thesis by simp
  next
    case None
    obtain r1 evs1 s2 where l: "remoteSubnetLoop env rest s0 = (r1, evs1, s2)"
      by (cases "remoteSubnetLoop env rest s0") auto
    from Cons.IH [OF l] c0 Cons.prems b None l show ?thesis by auto
  qed
qed

lemma remoteStage_remoteCall:
  "remoteStage env s = (r, evs, s1) \<Longrightarrow> \<forall>ev\<in>set evs. remoteCall ev"
  by (auto simp: remoteStage_def split: if_splits sum.splits prod.splits
           dest!: remoteSubnetLoop_remoteCall)

lemma remoteStage_routes:
  "remoteStage env s = (r, evs, s1) \<Longrightarrow> routes s1 = routes s"
  by (auto simp: remoteStage_def split: if_splits sum.splits prod.splits
           dest!: remoteSubnetLoop_routes)

lemma stage_structure:
  assumes "stageDesiredState env cfg s = (r, evs, s1)" and "ListSubnets env = Inr subs"
  shows "\<exists>r0 evs0 s0 evs1.
           subnetLoop env cfg subs (resetManagers env s) = (r0, evs0, s0) \<and>
           evs = [CallListSubnets, CallResetInfos RouteV4, CallResetInfos RouteV6] @ evs0 @ evs1 \<and>
           (case r0 of Some e \<Rightarrow> r = Some e \<and> evs1 = [] \<and> s1 = s0
                     | None \<Rightarrow> remoteStage env s0 = (r, evs1, s1))"
  using assms
  by (auto simp: stageDesiredState_def resetManagers_def Let_def
           split: sum.splits prod.splits option.splits)

lemma stage_list_failed:
  assumes "ListSubnets env = Inl err"
  shows "stageDesiredState env cfg s = (Some (FailedToListSubnet err), [CallListSubnets], s)"
  using assms by (simp add: stageDesiredState_def)

lemma stage_stagingCall:
  assumes "stageDesiredState env cfg s = (r, evs, s1)"
  shows "\<forall>ev\<in>set evs. stagingCall ev"
proof (cases "ListSubnets env")
  case (Inl err)
  with assms stage_list_failed [OF Inl, of cfg s] show ?thesis by auto
next
  case (Inr subs)
  from stage_structure [OF assms Inr] obtain r0 evs0 s0 evs1 where
    l: "subnetLoop env cfg subs (resetManagers env s) = (r0, evs0, s0)" and
    e: "evs = [CallListSubnets, CallResetInfos RouteV4, CallResetInfos RouteV6] @ evs0 @ evs1" and
    c: "case r0 of Some e \<Rightarrow> r = Some e \<and> evs1 = [] \<and> s1 = s0
                 | None \<Rightarrow> remoteStage env s0 = (r, evs1, s1)"
    by blast
  have a: "\<forall>ev\<in>set evs0. stagingCall ev"
    using subnetLoop_subnetCall [OF l] subnetCall_staging by blast
  have b: "\<forall>ev\<in>set evs1. stagingCall ev"
  proof (cases r0)
    case None
    with c have "remoteStage env s0 = (r, evs1, s1)" by simp
    from remoteStage_remoteCall [OF this] remoteCall_staging show ?thesis by blast
  next
    case (Some e)
    with c show ?thesis by simp
  qed
  from a b e show ?thesis by auto
qed

lemma stage_routes:
  assumes "stageDesiredState env cfg s = (r, evs, s1)"
  shows "routes s1 = routes s"
proof (cases "ListSubnets env")
  case (Inl err)
  with assms stage_list_failed [OF Inl, of cfg s] show ?thesis by auto
next
  case (Inr subs)
  from stage_structure [OF assms Inr] obtain r0 evs0 s0 evs1 where
    l: "subnetLoop env cfg subs (resetManagers env s) = (r0, evs0, s0)" and
    c: "case r0 of Some e \<Rightarrow> r = Some e \<and> evs1 = [] \<and> s1 = s0
                 | None \<Rightarrow> remoteStage env s0 = (r, evs1, s1)"
    by blast
  have a: "routes s0 = routes s"
    using subnetLoop_routes [OF l] by (simp add: resetManagers_def)
  from c a show ?thesis
    by (cases r0) (auto dest: remoteStage_routes)
qed

lemma syncStage_not_staging:
  "syncStage env s = (res, evs, s') \<Longrightarrow> \<forall>ev\<in>set evs. \<not> stagingCall ev"
  by (auto simp: syncStage_def Let_def split: prod.splits option.splits sum.splits if_splits)

lemma Reconcile_structure:
  assumes "Reconcile env cfg s = (res, evs, s')"
  shows "\<exists>r evs0 s1 evs1.
           stageDesiredState env cfg s = (r, evs0, s1) \<and> evs = evs0 @ evs1 \<and>
           (case r of Some e \<Rightarrow> res = (\<lparr>Requeue = True\<rparr>, Some e) \<and> evs1 = [] \<and> s' = s1
                    | None \<Rightarrow> syncStage env s1 = (res, evs1, s'))"
  using assms
  by (auto simp: Reconcile_def split: prod.splits option.splits)


lemma Reconcile_added:
  assumes "ListSubnets env = Inr subs"
  shows "\<exists>r0 evs0 s0. subnetLoop env cfg subs (resetManagers env s) = (r0, evs0, s0) \<and>
           addedSubnetInfos (callsOf (Reconcile env cfg s)) = addedSubnetInfos evs0 \<and>
           (errorOf (Reconcile env cfg s) = None \<longrightarrow> r0 = None)"
proof -
  obtain res evs s' where R: "Reconcile env cfg s = (res, evs, s')"
    by (cases "Reconcile env cfg s") auto
  from Reconcile_structure [OF R] obtain r sevs s1 yevs where
    st: "stageDesiredState env cfg s = (r, sevs, s1)" and ev: "evs = sevs @ yevs" and
    c: "case r of Some e \<Rightarrow> res = (\<lparr>Requeue = True\<rparr>, Some e) \<and> yevs = [] \<and> s' = s1
                | None \<Rightarrow> syncStage env s1 = (res, yevs, s')"
    by blast
  from stage_structure [OF st assms] obtain r0 evs0 s0 evs1 where
    l: "subnetLoop env cfg subs (resetManagers env s) = (r0, evs0, s0)" and
    e: "sevs = [CallListSubnets, CallResetInfos RouteV4, CallResetInfos RouteV6] @ evs0 @ evs1" and
    c1: "case r0 of Some e \<Rightarrow> r = Some e \<and> evs1 = [] \<and> s1 = s0
                  | None \<Rightarrow> remoteStage env s0 = (r, evs1, s1)"
    by blast
  have y: "addedSubnetInfos yevs = []"
    using c syncStage_not_staging [of env s1 res yevs s'] syncCall_no_add [of yevs]
    by (cases r) auto
  have x: "addedSubnetInfos evs1 = []"
    using c1 remoteStage_remoteCall [of env s0 r evs1 s1] remoteCall_no_add [of evs1]
    by (cases r0) auto
  have a: "addedSubnetInfos evs = addedSubnetInfos evs0"
    using ev e x y by (simp add: addedSubnetInfos_append)
  have b: "snd res = None \<longrightarrow> r0 = None"
    using c c1 by (cases r; cases r0) auto
  from l a b R show ?thesis by simp
qed

lemma isUnderlayOnHost_iff:
  "isUnderlayOnHost env cfg network \<longleftrightarrow>
     GetNetworkType env network = NetworkTypeUnderlay \<and>
     NodeName cfg \<in> set (network_NodeList network)"
  by (simp add: isUnderlayOnHost_def nodeListLoop_iff)

lemma reconcileSubnet_flag:
  assumes "reconcileSubnet env cfg subnet s = (None, evs, s1)"
  shows "\<exists>m info. addedSubnetInfos evs = [(m, info)] \<and>
           (\<exists>network. GetNetwork env (subnet_Network subnet) = Inr network \<and>
              isUnderlayLocal info = isUnderlayOnHost env cfg network)"
proof -
  from reconcileSubnet_ok [OF assms] obtain network c g st en ex v ifn nt ov evs0 l' where
    g: "GetNetwork env (subnet_Network subnet) = Inr network" and
    f: "forwardSwitch env cfg subnet network (links s) = (Inr (ifn, nt, ov), evs0, l')" and
    e: "evs = CallGetNetwork (subnet_Network subnet) # evs0
                   @ [CallAddSubnetInfo (getRouterManager (Version (subnet_Range subnet)))
                        \<lparr>cidr = c, gateway = g, startIP = st, endIP = en, excludeIPs = ex,
                         forwardNodeIfName = ifn, autoNatOutgoing = nt, isOverlay = ov,
                         isUnderlayLocal = isUnderlayOnHost env cfg network\<rparr>]"
    by blast
  from forwardSwitch_no_add [OF f] e g show ?thesis
    by (simp add: addedSubnetInfos_append)
qed

lemma syncCalls_append: "syncCalls (xs @ ys) = syncCalls xs @ syncCalls ys"
  by (induction xs rule: syncCalls.induct) simp_all

lemma stagingCall_no_sync: "\<forall>ev\<in>set evs. stagingCall ev \<Longrightarrow> syncCalls evs = []"
  by (induction evs rule: syncCalls.induct) simp_all

lemma reconcileSubnet_get_failure:
  "isl (GetNetwork env (subnet_Network subnet)) \<Longrightarrow> fst (reconcileSubnet env cfg subnet s) \<noteq> None"
  by (auto simp: reconcileSubnet_def isl_def)

lemma reconcileSubnet_parse_failure:
  "isl (parseSubnetSpecRangeMeta env (subnet_Range subnet)) \<Longrightarrow>
     fst (reconcileSubnet env cfg subnet s) \<noteq> None"
  by (auto simp: reconcileSubnet_def isl_def split: sum.splits)

lemma reconcileSubnet_ensure_failure:
  assumes "reconcileSubnet env cfg subnet s = (r, evs, s1)"
      and "CallEnsureVlanIf b i (Inl e) \<in> set evs"
  shows "r = Some (FailedToEnsureVlan e)"
  using assms
  by (auto simp: reconcileSubnet_def Let_def
           dest!: forwardSwitch_cases
           split: sum.splits prod.splits)

lemma subnetLoop_failure:
  assumes "subnet \<in> set subs" and "\<And>t. fst (reconcileSubnet env cfg subnet t) \<noteq> None"
  shows "fst (subnetLoop env cfg subs s) \<noteq> None"
  using assms(1)
proof (induction subs arbitrary: s)
  case Nil
  then show ?case by simp
next
  case (Cons a rest)
  obtain r0 evs0 s0 where b: "reconcileSubnet env cfg a s = (r0, evs0, s0)"
    by (cases "reconcileSubnet env cfg a s") auto
  show ?case
  proof (cases r0)
    case (Some e)
    with b show ?thesis by simp
  next
    case None
    with b assms(2) [of s] have "subnet \<noteq> a" by auto
    with Cons.prems have "subnet \<in> set rest" by simp
    from Cons.IH [OF this, of s0] b None show ?thesis
      by (auto split: prod.splits)
  qed
qed

lemma subnetLoop_ensure_failure:
  "subnetLoop env cfg subs s = (r, evs, s1) \<Longrightarrow> CallEnsureVlanIf b i (Inl e) \<in> set evs \<Longrightarrow>
     r = Some (FailedToEnsureVlan e)"
proof (induction subs arbitrary: s r evs s1)
  case Nil
  then show ?case by simp
next
  case (Cons a rest)
  obtain r0 evs0 s0 where b: "reconcileSubnet env cfg a s = (r0, evs0, s0)"
    by (cases "reconcileSubnet env cfg a s") auto
  show ?case
  proof (cases r0)
    case (Some e0)
    with Cons.prems b have "r = r0" and "evs = evs0" by auto
    with Cons.prems(2) reconcileSubnet_ensure_failure [OF b] show ?thesis by simp
  next
    case None
    obtain r1 evs1 s2 where l: "subnetLoop env cfg rest s0 = (r1, evs1, s2)"
      by (cases "subnetLoop env cfg rest s0") auto
    from Cons.prems b None l have e: "evs = evs0 @ evs1" and r: "r = r1" by auto
    from reconcileSubnet_ensure_failure [OF b] None
    have "CallEnsureVlanIf b i (Inl e) \<notin> set evs0" by auto
    with Cons.prems(2) e have "CallEnsureVlanIf b i (Inl e) \<in> set evs1" by simp
    from Cons.IH [OF l this] r show ?thesis by simp
  qed
qed

lemma reconcileRemoteSubnet_parse_failure:
  "isl (parseSubnetSpecRangeMeta env (remote_Range remote)) \<Longrightarrow>
     fst (reconcileRemoteSubnet env remote s) \<noteq> None"
  by (auto simp: reconcileRemoteSubnet_def isl_def)

lemma reconcileRemoteSubnet_add_failure:
  assumes "reconcileRemoteSubnet env remote s = (r, evs, s1)"
      and "CallAddRemoteSubnetInfo m info (Some e) \<in> set evs"
  shows "r = Some (FailedToAddRemoteSubnetInfo e)"
  using reconcileRemoteSubnet_cases [OF assms(1)] assms(2) by auto

lemma remoteSubnetLoop_failure:
  assumes "remote \<in> set rs" and "\<And>t. fst (reconcileRemoteSubnet env remote t) \<noteq> None"
  shows "fst (remoteSubnetLoop env rs s) \<noteq> None"
  using assms(1)
proof (induction rs arbitrary: s)
  case Nil
  then show ?case by simp
next
  case (Cons a rest)
  obtain r0 evs0 s0 where b: "reconcileRemoteSubnet env a s = (r0, evs0, s0)"
    by (cases "reconcileRemoteSubnet env a s") auto
  show ?case
  proof (cases r0)
    case (Some e)
    with b show ?thesis by simp
  next
    case None
    with b assms(2) [of s] have "remote \<noteq> a" by auto
    with Cons.prems have "remote \<in> set rest" by simp
    from Cons.IH [OF this, of s0] b None show ?thesis
      by (auto split: prod.splits)
  qed
qed

lemma remoteSubnetLoop_add_failure:
  "remoteSubnetLoop env rs s = (r, evs, s1) \<Longrightarrow>
     CallAddRemoteSubnetInfo m info (Some e) \<in> set evs \<Longrightarrow>
     r = Some (FailedToAddRemoteSubnetInfo e)"
proof (induction rs arbitrary: s r evs s1)
  case Nil
  then show ?case by simp
next
  case (Cons a rest)
  obtain r0 evs0 s0 where b: "reconcileRemoteSubnet env a s = (r0, evs0, s0)"
    by (cases "reconcileRemoteSubnet env a s") auto
  show ?case
  proof (cases r0)
    case (Some e0)
    with Cons.prems b have "r = r0" and "evs = evs0" by auto
    with Cons.prems(2) reconcileRemoteSubnet_add_failure [OF b] show ?thesis by simp
  next
    case None
    obtain r1 evs1 s2 where l: "remoteSubnetLoop env rest s0 = (r1, evs1, s2)"
      by (cases "remoteSubnetLoop env rest s0") auto
    from Cons.prems b None l have e: "evs = evs0 @ evs1" and r: "r = r1" by auto
    from reconcileRemoteSubnet_add_failure [OF b] None
    have "CallAddRemoteSubnetInfo m info (Some e) \<notin> set evs0" by auto
    with Cons.prems(2) e have "CallAddRemoteSubnetInfo m info (Some e) \<in> set evs1" by simp
    from Cons.IH [OF l this] r show ?thesis by simp
  qed
qed

text \<open>
  The calls of the remote block and the remote subnets it has come to hand to a
  manager correspond one to one, in order; a call that fails is the last one.
\<close>

lemma remoteSubnetLoop_registered:
  assumes step: "\<And>remote s out evs s1 m info.
                   reconcileRemoteSubnet env remote s = (out, evs, s1) \<Longrightarrow>
                   addedRemoteSubnetInfos evs = [(m, info)] \<Longrightarrow> P remote (m, info)"
  shows "remoteSubnetLoop env rs s = (r, evs, s1) \<Longrightarrow>
           list_all2 P (take (length (addedRemoteSubnetInfos evs)) rs)
             (addedRemoteSubnetInfos evs) \<and>
           (r = None \<longrightarrow> length (addedRemoteSubnetInfos evs) = length rs)"
proof (induction rs arbitrary: s r evs s1)
  case Nil
  then show ?case by simp
next
  case (Cons a rest)
  obtain r0 evs0 s0 where b: "reconcileRemoteSubnet env a s = (r0, evs0, s0)"
    by (cases "reconcileRemoteSubnet env a s") auto
  from reconcileRemoteSubnet_cases [OF b]
  have shape: "(addedRemoteSubnetInfos evs0 = [] \<and> r0 \<noteq> None)
             \<or> (\<exists>m info. addedRemoteSubnetInfos evs0 = [(m, info)])"
    by auto
  show ?case
  proof (cases r0)
    case (Some e0)
    with Cons.prems b have r: "r = r0" and e: "evs = evs0" by auto
    from shape show ?thesis
    proof
      assume "addedRemoteSubnetInfos evs0 = [] \<and> r0 \<noteq> None"
      with r e Some show ?thesis by simp
    next
      assume "\<exists>m info. addedRemoteSubnetInfos evs0 = [(m, info)]"
      then obtain m info where a: "addedRemoteSubnetInfos evs0 = [(m, info)]" by blast
      from step [OF b a] a r e Some show ?thesis by simp
    qed
  next
    case None
    obtain r1 evs1 s2 where l: "remoteSubnetLoop env rest s0 = (r1, evs1, s2)"
      by (cases "remoteSubnetLoop env rest s0") auto
    from Cons.prems b None l have e: "evs = evs0 @ evs1" and r: "r = r1" by auto
    from shape None obtain m info where a: "addedRemoteSubnetInfos evs0 = [(m, info)]"
      by auto
    from Cons.IH [OF l] step [OF b a] a e r show ?thesis
      by (simp add: addedRemoteSubnetInfos_append)
  qed
qed

lemma Reconcile_stage_failed:
  assumes "stageDesiredState env cfg s = (Some e, evs, s1)"
  shows "Reconcile env cfg s = ((\<lparr>Requeue = True\<rparr>, Some e), evs, s1)"
  using assms by (simp add: Reconcile_def)

lemma Reconcile_stage_failed_aborted:
  assumes "fst (stageDesiredState env cfg s) \<noteq> None"
  shows "abortedBeforeSync (Reconcile env cfg s) s"
proof -
  from assms obtain e evs s1 where st: "stageDesiredState env cfg s = (Some e, evs, s1)"
    by (cases "stageDesiredState env cfg s") auto
  from stage_stagingCall [OF st] have "syncCalls evs = []"
    by (rule stagingCall_no_sync)
  with Reconcile_stage_failed [OF st] stage_routes [OF st] show ?thesis
    by (simp add: abortedBeforeSync_def)
qed

lemma Reconcile_calls:
  "\<exists>evs1. callsOf (Reconcile env cfg s) = callsOf (stageDesiredState env cfg s) @ evs1 \<and>
          (\<forall>ev\<in>set evs1. \<not> stagingCall ev) \<and>
          (fst (stageDesiredState env cfg s) \<noteq> None \<longrightarrow> evs1 = [])"
proof -
  obtain res evs s' where R: "Reconcile env cfg s = (res, evs, s')"
    by (cases "Reconcile env cfg s") auto
  from Reconcile_structure [OF R] obtain r evs0 s1 evs1 where
    st: "stageDesiredState env cfg s = (r, evs0, s1)" and ev: "evs = evs0 @ evs1" and
    c: "case r of Some e \<Rightarrow> res = (\<lparr>Requeue = True\<rparr>, Some e) \<and> evs1 = [] \<and> s' = s1
                | None \<Rightarrow> syncStage env s1 = (res, evs1, s')"
    by blast
  have "\<forall>ev\<in>set evs1. \<not> stagingCall ev"
    using c syncStage_not_staging [of env s1 res evs1 s'] by (cases r) auto
  moreover have "r \<noteq> None \<longrightarrow> evs1 = []"
    using c by (cases r) auto
  ultimately show ?thesis using R st ev by simp
qed

lemma Reconcile_staging_calls:
  assumes "ev \<in> set (callsOf (Reconcile env cfg s))" and "stagingCall ev"
  shows "ev \<in> set (callsOf (stageDesiredState env cfg s))"
  using Reconcile_calls [of env cfg s] assms by auto

lemma stage_ensure_failure:
  assumes "CallEnsureVlanIf b i (Inl e) \<in> set (callsOf (stageDesiredState env cfg s))"
  shows "fst (stageDesiredState env cfg s) = Some (FailedToEnsureVlan e)"
proof (cases "ListSubnets env")
  case (Inl err)
  with assms stage_list_failed [OF Inl, of cfg s] show ?thesis by simp
next
  case (Inr subs)
  obtain r evs s1 where st: "stageDesiredState env cfg s = (r, evs, s1)"
    by (cases "stageDesiredState env cfg s") auto
  from stage_structure [OF st Inr] obtain r0 evs0 s0 evs1 where
    l: "subnetLoop env cfg subs (resetManagers env s) = (r0, evs0, s0)" and
    e: "evs = [CallListSubnets, CallResetInfos RouteV4, CallResetInfos RouteV6] @ evs0 @ evs1" and
    c: "case r0 of Some e \<Rightarrow> r = Some e \<and> evs1 = [] \<and> s1 = s0
                 | None \<Rightarrow> remoteStage env s0 = (r, evs1, s1)"
    by blast
  have "\<forall>ev\<in>set evs1. remoteCall ev"
    using c remoteStage_remoteCall [of env s0 r evs1 s1] by (cases r0) auto
  then have "CallEnsureVlanIf b i (Inl e) \<notin> set evs1" by auto
  with assms st e have "CallEnsureVlanIf b i (Inl e) \<in> set evs0" by simp
  from subnetLoop_ensure_failure [OF l this] c st show ?thesis by simp
qed

lemma remoteStage_add_failure:
  assumes "remoteStage env s = (r, evs, s1)"
      and "CallAddRemoteSubnetInfo m info (Some e) \<in> set evs"
  shows "r = Some (FailedToAddRemoteSubnetInfo e)"
  using assms
  by (auto simp: remoteStage_def split: if_splits sum.splits prod.splits
           dest: remoteSubnetLoop_add_failure)

lemma stage_add_remote_failure:
  assumes "CallAddRemoteSubnetInfo m info (Some e) \<in> set (callsOf (stageDesiredState env cfg s))"
  shows "fst (stageDesiredState env cfg s) = Some (FailedToAddRemoteSubnetInfo e)"
proof (cases "ListSubnets env")
  case (Inl err)
  with assms stage_list_failed [OF Inl, of cfg s] show ?thesis by simp
next
  case (Inr subs)
  obtain r evs s1 where st: "stageDesiredState env cfg s = (r, evs, s1)"
    by (cases "stageDesiredState env cfg s") auto
  from stage_structure [OF st Inr] obtain r0 evs0 s0 evs1 where
    l: "subnetLoop env cfg subs (resetManagers env s) = (r0, evs0, s0)" and
    e: "evs = [CallListSubnets, CallResetInfos RouteV4, CallResetInfos RouteV6] @ evs0 @ evs1" and
    c: "case r0 of Some e \<Rightarrow> r = Some e \<and> evs1 = [] \<and> s1 = s0
                 | None \<Rightarrow> remoteStage env s0 = (r, evs1, s1)"
    by blast
  from subnetLoop_subnetCall [OF l]
  have "CallAddRemoteSubnetInfo m info (Some e) \<notin> set evs0" by auto
  with assms st e have in1: "CallAddRemoteSubnetInfo m info (Some e) \<in> set evs1" by simp
  show ?thesis
  proof (cases r0)
    case None
    with c have "remoteStage env s0 = (r, evs1, s1)" by simp
    from remoteStage_add_failure [OF this in1] st show ?thesis by simp
  next
    case (Some e0)
    with c in1 show ?thesis by simp
  qed
qed

lemma stage_subnet_failure:
  assumes "ListSubnets env = Inr subs" and "subnet \<in> set subs"
      and "\<And>t. fst (reconcileSubnet env cfg subnet t) \<noteq> None"
  shows "fst (stageDesiredState env cfg s) \<noteq> None"
proof -
  obtain r evs s1 where st: "stageDesiredState env cfg s = (r, evs, s1)"
    by (cases "stageDesiredState env cfg s") auto
  from stage_structure [OF st assms(1)] obtain r0 evs0 s0 evs1 where
    l: "subnetLoop env cfg subs (resetManagers env s) = (r0, evs0, s0)" and
    c: "case r0 of Some e \<Rightarrow> r = Some e \<and> evs1 = [] \<and> s1 = s0
                 | None \<Rightarrow> remoteStage env s0 = (r, evs1, s1)"
    by blast
  from subnetLoop_failure [of subnet subs env cfg, OF assms(2) assms(3)] l
  have "r0 \<noteq> None" by (metis fst_conv)
  with c st show ?thesis by auto
qed

lemma remoteStage_list_failure:
  "MultiClusterEnabled env \<Longrightarrow> isl (ListRemoteSubnets env) \<Longrightarrow> fst (remoteStage env s) \<noteq> None"
  by (auto simp: remoteStage_def isl_def)

lemma remoteStage_remote_failure:
  assumes "MultiClusterEnabled env" and "ListRemoteSubnets env = Inr rs" and "remote \<in> set rs"
      and "\<And>t. fst (reconcileRemoteSubnet env remote t) \<noteq> None"
  shows "fst (remoteStage env s) \<noteq> None"
  using remoteSubnetLoop_failure [of remote rs env, OF assms(3) assms(4), of s] assms(1,2)
  by (auto simp: remoteStage_def split: prod.splits)

lemma stage_remote_failure:
  assumes "\<And>t. fst (remoteStage env t) \<noteq> None"
  shows "fst (stageDesiredState env cfg s) \<noteq> None"
proof (cases "ListSubnets env")
  case (Inl err)
  with stage_list_failed [OF Inl, of cfg s] show ?thesis by simp
next
  case (Inr subs)
  obtain r evs s1 where st: "stageDesiredState env cfg s = (r, evs, s1)"
    by (cases "stageDesiredState env cfg s") auto
  from stage_structure [OF st Inr] obtain r0 evs0 s0 evs1 where
    c: "case r0 of Some e \<Rightarrow> r = Some e \<and> evs1 = [] \<and> s1 = s0
                 | None \<Rightarrow> remoteStage env s0 = (r, evs1, s1)"
    by blast
  show ?thesis
  proof (cases r0)
    case None
    with c assms [of s0] st show ?thesis by auto
  next
    case (Some e0)
    with c st show ?thesis by simp
  qed
qed

lemma remoteStage_counts:
  assumes "remoteStage env s = (None, evs, s1)"
  shows "if MultiClusterEnabled env
         then \<exists>rs. ListRemoteSubnets env = Inr rs \<and> length (addedRemoteSubnetInfos evs) = length rs
         else addedRemoteSubnetInfos evs = []"
proof (cases "MultiClusterEnabled env")
  case False
  with assms show ?thesis by (simp add: remoteStage_def)
next
  case True
  with assms obtain rs evs' where
    l: "ListRemoteSubnets env = Inr rs" and
    lp: "remoteSubnetLoop env rs s = (None, evs', s1)" and e: "evs = CallListRemoteSubnets # evs'"
    by (auto simp: remoteStage_def split: sum.splits prod.splits)
  from remoteSubnetLoop_registered [of env "\<lambda>_ _. True", OF _ lp] e l True
  show ?thesis by simp
qed

lemma stage_ok_counts:
  assumes "stageDesiredState env cfg s = (None, evs, s1)"
  shows "(\<exists>subs. ListSubnets env = Inr subs \<and> length (addedSubnetInfos evs) = length subs) \<and>
         (if MultiClusterEnabled env
          then \<exists>rs. ListRemoteSubnets env = Inr rs \<and>
                 length (addedRemoteSubnetInfos evs) = length rs
          else addedRemoteSubnetInfos evs = [])"
proof (cases "ListSubnets env")
  case (Inl err)
  with assms stage_list_failed [OF Inl, of cfg s] show ?thesis by simp
next
  case (Inr subs)
  from stage_structure [OF assms Inr] obtain r0 evs0 s0 evs1 where
    l: "subnetLoop env cfg subs (resetManagers env s) = (r0, evs0, s0)" and
    e: "evs = [CallListSubnets, CallResetInfos RouteV4, CallResetInfos RouteV6] @ evs0 @ evs1" and
    c: "case r0 of Some e \<Rightarrow> None = Some e \<and> evs1 = [] \<and> s1 = s0
                 | None \<Rightarrow> remoteStage env s0 = (None, evs1, s1)"
    by blast
  from c have r0: "r0 = None" and rs: "remoteStage env s0 = (None, evs1, s1)"
    by (cases r0; simp)+
  have step: "\<exists>m info. addedSubnetInfos evs = [(m, info)] \<and> True"
    if "reconcileSubnet env cfg subnet t = (None, evs, t1)" for subnet t evs t1
    using reconcileSubnet_flag [OF that] by auto
  from subnetLoop_registered [of env cfg "\<lambda>_ _. True", OF step l] r0
  have n0: "length (addedSubnetInfos evs0) = length subs" by simp
  have a1: "addedSubnetInfos evs1 = []"
    using remoteStage_remoteCall [OF rs] by (rule remoteCall_no_add)
  have b0: "addedRemoteSubnetInfos evs0 = []"
    using subnetLoop_subnetCall [OF l] by (rule subnetCall_no_remote)
  from n0 a1 b0 e remoteStage_counts [OF rs] Inr show ?thesis
    by (simp add: addedSubnetInfos_append addedRemoteSubnetInfos_append)
qed

lemma stage_single_cluster:
  assumes "\<not> MultiClusterEnabled env"
  shows "\<forall>ev\<in>set (callsOf (stageDesiredState env cfg s)). \<not> remoteCall ev"
proof (cases "ListSubnets env")
  case (Inl err)
  with stage_list_failed [OF Inl, of cfg s] show ?thesis by simp
next
  case (Inr subs)
  obtain r evs s1 where st: "stageDesiredState env cfg s = (r, evs, s1)"
    by (cases "stageDesiredState env cfg s") auto
  from stage_structure [OF st Inr] obtain r0 evs0 s0 evs1 where
    l: "subnetLoop env cfg subs (resetManagers env s) = (r0, evs0, s0)" and
    e: "evs = [CallListSubnets, CallResetInfos RouteV4, CallResetInfos RouteV6] @ evs0 @ evs1" and
    c: "case r0 of Some e \<Rightarrow> r = Some e \<and> evs1 = [] \<and> s1 = s0
                 | None \<Rightarrow> remoteStage env s0 = (r, evs1, s1)"
    by blast
  have "evs1 = []"
    using c assms by (cases r0) (auto simp: remoteStage_def)
  moreover have "\<forall>ev\<in>set evs0. \<not> remoteCall ev"
  proof
    fix ev assume "ev \<in> set evs0"
    with subnetLoop_subnetCall [OF l] have "subnetCall ev" by blast
    then show "\<not> remoteCall ev" by (cases ev) simp_all
  qed
  ultimately show ?thesis using st e by auto
qed

lemma not_remoteCall_no_remote:
  "\<forall>ev\<in>set evs. \<not> remoteCall ev \<Longrightarrow> addedRemoteSubnetInfos evs = []"
  by (induction evs rule: addedRemoteSubnetInfos.induct) simp_all

section \<open>The claims\<close>

text \<open>
  Claim C2. For every subnet processed in a pass, the flag \<open>isUnderlayLocal\<close> handed
  to \<^verbatim>\<open>AddSubnetInfo\<close> is true if and only if the type of the referenced Network is
  Underlay and the configured node name occurs in the node list of the Network; for a
  Network of type Overlay it is false. The registered records are paired, in order,
  with the subnets of the list that the pass has come to register, which are all of
  them when the pass returns no error.
\<close>

theorem isUnderlayLocal_iff_underlay_member:
  assumes "ListSubnets env = Inr subnetList"
  shows "list_all2
           (\<lambda>subnet (m, info).
              \<exists>network. GetNetwork env (subnet_Network subnet) = Inr network \<and>
                (isUnderlayLocal info \<longleftrightarrow>
                   GetNetworkType env network = NetworkTypeUnderlay \<and>
                   NodeName cfg \<in> set (network_NodeList network)) \<and>
                (GetNetworkType env network = NetworkTypeOverlay \<longrightarrow> \<not> isUnderlayLocal info))
           (take (length (addedSubnetInfos (callsOf (Reconcile env cfg s)))) subnetList)
           (addedSubnetInfos (callsOf (Reconcile env cfg s)))
         \<and> (errorOf (Reconcile env cfg s) = None \<longrightarrow>
              length (addedSubnetInfos (callsOf (Reconcile env cfg s))) = length subnetList)"
proof -
  let ?P = "\<lambda>subnet (m, info).
              \<exists>network. GetNetwork env (subnet_Network subnet) = Inr network \<and>
                (isUnderlayLocal info \<longleftrightarrow>
                   GetNetworkType env network = NetworkTypeUnderlay \<and>
                   NodeName cfg \<in> set (network_NodeList network)) \<and>
                (GetNetworkType env network = NetworkTypeOverlay \<longrightarrow> \<not> isUnderlayLocal info)"
  from Reconcile_added [OF assms, of cfg s] obtain r0 evs0 s0 where
    l: "subnetLoop env cfg subnetList (resetManagers env s) = (r0, evs0, s0)" and
    a: "addedSubnetInfos (callsOf (Reconcile env cfg s)) = addedSubnetInfos evs0" and
    r: "errorOf (Reconcile env cfg s) = None \<longrightarrow> r0 = None"
    by auto
  have step: "\<exists>m info. addedSubnetInfos evs = [(m, info)] \<and> ?P subnet (m, info)"
    if "reconcileSubnet env cfg subnet t = (None, evs, t1)" for subnet t evs t1
    using reconcileSubnet_flag [OF that]
    by (auto simp: isUnderlayOnHost_iff)
  from subnetLoop_registered [of env cfg ?P, OF step l] a r show ?thesis by simp
qed

theorem isUnderlayLocal_iff_underlay_member_witness:
  "ListSubnets sampleEnv = Inr [subnetA, subnetC] \<and>
   map (isUnderlayLocal \<circ> snd) (addedSubnetInfos (callsOf (Reconcile sampleEnv node1 hub0)))
     = [True, False] \<and>
   map (isUnderlayLocal \<circ> snd) (addedSubnetInfos (callsOf (Reconcile sampleEnv node2 hub0)))
     = [False, False] \<and>
   list_all2
     (\<lambda>subnet (m, info).
        \<exists>network. GetNetwork sampleEnv (subnet_Network subnet) = Inr network \<and>
          (isUnderlayLocal info \<longleftrightarrow>
             GetNetworkType sampleEnv network = NetworkTypeUnderlay \<and>
             NodeName node1 \<in> set (network_NodeList network)) \<and>
          (GetNetworkType sampleEnv network = NetworkTypeOverlay \<longrightarrow> \<not> isUnderlayLocal info))
     [subnetA, subnetC]
     (addedSubnetInfos (callsOf (Reconcile sampleEnv node1 hub0)))"
proof -
  have l: "ListSubnets sampleEnv = Inr [subnetA, subnetC]"
    by (simp add: sampleEnv_def)
  have n1: "map (isUnderlayLocal \<circ> snd) (addedSubnetInfos (callsOf (Reconcile sampleEnv node1 hub0)))
     = [True, False]"
    by (simp add: reconciler_defs sample_defs)
  have n2: "map (isUnderlayLocal \<circ> snd) (addedSubnetInfos (callsOf (Reconcile sampleEnv node2 hub0)))
     = [False, False]"
    by (simp add: reconciler_defs sample_defs)
  from n1 have len: "length (addedSubnetInfos (callsOf (Reconcile sampleEnv node1 hub0))) = 2"
    by (metis length_map length_Cons list.size(3) numeral_2_eq_2)
  from isUnderlayLocal_iff_underlay_member [OF l, of node1 hub0] l n1 n2 len
  show ?thesis by simp
qed

text \<open>
  Claim C1. If a staging step of a pass fails (listing the subnets, resolving the
  Network of a subnet, parsing a range, ensuring an underlay forwarding interface,
  listing the remote subnets, or adding a remote subnet info), the pass is aborted: it
  returns an error and asks for a requeue, and \<^verbatim>\<open>SyncRoutes\<close> has been called on
  neither Route Manager. Conversely, in a pass that calls \<^verbatim>\<open>SyncRoutes\<close> the staging
  has returned no error, every subnet of the list has been registered and, with
  federation enabled, every remote subnet as well.
\<close>

theorem staging_failure_aborts_before_sync:
  "(isl (ListSubnets env)
    \<or> (\<exists>subnetList subnet. ListSubnets env = Inr subnetList \<and> subnet \<in> set subnetList \<and>
          (isl (GetNetwork env (subnet_Network subnet))
           \<or> isl (parseSubnetSpecRangeMeta env (subnet_Range subnet))))
    \<or> (\<exists>base netID err.
          CallEnsureVlanIf base netID (Inl err) \<in> set (callsOf (Reconcile env cfg s)))
    \<or> (MultiClusterEnabled env \<and> isl (ListRemoteSubnets env))
    \<or> (\<exists>remoteList remote. MultiClusterEnabled env \<and> ListRemoteSubnets env = Inr remoteList \<and>
          remote \<in> set remoteList \<and> isl (parseSubnetSpecRangeMeta env (remote_Range remote)))
    \<or> (\<exists>m info err.
          CallAddRemoteSubnetInfo m info (Some err) \<in> set (callsOf (Reconcile env cfg s)))
    \<or> fst (stageDesiredState env cfg s) \<noteq> None
    \<longrightarrow> abortedBeforeSync (Reconcile env cfg s) s)
   \<and> (syncCalls (callsOf (Reconcile env cfg s)) \<noteq> [] \<longrightarrow>
        fst (stageDesiredState env cfg s) = None \<and>
        (\<exists>subnetList. ListSubnets env = Inr subnetList \<and>
           length (addedSubnetInfos (callsOf (Reconcile env cfg s))) = length subnetList) \<and>
        (MultiClusterEnabled env \<longrightarrow>
           (\<exists>remoteList. ListRemoteSubnets env = Inr remoteList \<and>
              length (addedRemoteSubnetInfos (callsOf (Reconcile env cfg s)))
                = length remoteList)))"
proof (intro conjI impI)
  assume cause:
    "isl (ListSubnets env)
    \<or> (\<exists>subnetList subnet. ListSubnets env = Inr subnetList \<and> subnet \<in> set subnetList \<and>
          (isl (GetNetwork env (subnet_Network subnet))
           \<or> isl (parseSubnetSpecRangeMeta env (subnet_Range subnet))))
    \<or> (\<exists>base netID err.
          CallEnsureVlanIf base netID (Inl err) \<in> set (callsOf (Reconcile env cfg s)))
    \<or> (MultiClusterEnabled env \<and> isl (ListRemoteSubnets env))
    \<or> (\<exists>remoteList remote. MultiClusterEnabled env \<and> ListRemoteSubnets env = Inr remoteList \<and>
          remote \<in> set remoteList \<and> isl (parseSubnetSpecRangeMeta env (remote_Range remote)))
    \<or> (\<exists>m info err.
          CallAddRemoteSubnetInfo m info (Some err) \<in> set (callsOf (Reconcile env cfg s)))
    \<or> fst (stageDesiredState env cfg s) \<noteq> None"
  have "fst (stageDesiredState env cfg s) \<noteq> None"
  proof -
    have c1: ?thesis if "isl (ListSubnets env)"
      using that by (auto simp: isl_def stage_list_failed)
    have c2: ?thesis
      if "ListSubnets env = Inr subnetList" and "subnet \<in> set subnetList"
        and "isl (GetNetwork env (subnet_Network subnet))" for subnetList subnet
      by (rule stage_subnet_failure [OF that(1) that(2)])
         (rule reconcileSubnet_get_failure [OF that(3)])
    have c3: ?thesis
      if "ListSubnets env = Inr subnetList" and "subnet \<in> set subnetList"
        and "isl (parseSubnetSpecRangeMeta env (subnet_Range subnet))" for subnetList subnet
      by (rule stage_subnet_failure [OF that(1) that(2)])
         (rule reconcileSubnet_parse_failure [OF that(3)])
    have c4: ?thesis
      if "CallEnsureVlanIf base netID (Inl err) \<in> set (callsOf (Reconcile env cfg s))"
      for base netID err
      using stage_ensure_failure [of base netID err env cfg s]
        Reconcile_staging_calls [OF that]
      by simp
    have c5: ?thesis if "MultiClusterEnabled env" and "isl (ListRemoteSubnets env)"
      by (rule stage_remote_failure) (rule remoteStage_list_failure [OF that])
    have c6: ?thesis
      if "MultiClusterEnabled env" and "ListRemoteSubnets env = Inr remoteList"
        and "remote \<in> set remoteList"
        and "isl (parseSubnetSpecRangeMeta env (remote_Range remote))" for remoteList remote
      by (rule stage_remote_failure, rule remoteStage_remote_failure [OF that(1) that(2) that(3)])
         (rule reconcileRemoteSubnet_parse_failure [OF that(4)])
    have c7: ?thesis
      if "CallAddRemoteSubnetInfo m info (Some err) \<in> set (callsOf (Reconcile env cfg s))"
      for m info err
      using stage_add_remote_failure [of m info err env cfg s]
        Reconcile_staging_calls [OF that]
      by simp
    from cause c1 c2 c3 c4 c5 c6 c7 show ?thesis by blast
  qed
  then show "abortedBeforeSync (Reconcile env cfg s) s"
    by (rule Reconcile_stage_failed_aborted)
next
  assume sync: "syncCalls (callsOf (Reconcile env cfg s)) \<noteq> []"
  show ok: "fst (stageDesiredState env cfg s) = None"
  proof (rule ccontr)
    assume "fst (stageDesiredState env cfg s) \<noteq> None"
    from Reconcile_stage_failed_aborted [OF this] sync show False
      by (simp add: abortedBeforeSync_def)
  qed
  then obtain evs s1 where st: "stageDesiredState env cfg s = (None, evs, s1)"
    by (cases "stageDesiredState env cfg s") auto
  from Reconcile_calls [of env cfg s] st obtain evs1 where
    e: "callsOf (Reconcile env cfg s) = evs @ evs1" and n: "\<forall>ev\<in>set evs1. \<not> stagingCall ev"
    by auto
  from n have a: "addedSubnetInfos evs1 = []" by (rule syncCall_no_add)
  from n have b: "addedRemoteSubnetInfos evs1 = []" by (rule syncCall_no_remote)
  from stage_ok_counts [OF st] e a b
  show "\<exists>subnetList. ListSubnets env = Inr subnetList \<and>
           length (addedSubnetInfos (callsOf (Reconcile env cfg s))) = length subnetList"
    by (simp add: addedSubnetInfos_append)
  from stage_ok_counts [OF st] e a b
  show "\<exists>remoteList. ListRemoteSubnets env = Inr remoteList \<and>
              length (addedRemoteSubnetInfos (callsOf (Reconcile env cfg s)))
                = length remoteList" if "MultiClusterEnabled env"
    using that by (simp add: addedRemoteSubnetInfos_append)
qed


theorem staging_failure_aborts_before_sync_witness:
  "isl (ListSubnets listFailsEnv) \<and> abortedBeforeSync (Reconcile listFailsEnv node1 hub0) hub0 \<and>
   isl (GetNetwork noNetworkEnv (subnet_Network subnetA)) \<and>
   abortedBeforeSync (Reconcile noNetworkEnv node1 hub0) hub0 \<and>
   isl (parseSubnetSpecRangeMeta badRangeEnv (subnet_Range subnetBad)) \<and>
   abortedBeforeSync (Reconcile badRangeEnv node1 hub0) hub0 \<and>
   CallEnsureVlanIf ''eth0'' None (Inl (Collaborator ''InterfaceProvisionError''))
     \<in> set (callsOf (Reconcile noNetIDEnv node1 hub0)) \<and>
   abortedBeforeSync (Reconcile noNetIDEnv node1 hub0) hub0 \<and>
   isl (ListRemoteSubnets remoteListFailsEnv) \<and>
   abortedBeforeSync (Reconcile remoteListFailsEnv node1 hub0) hub0 \<and>
   isl (parseSubnetSpecRangeMeta badRemoteRangeEnv (remote_Range remoteBad)) \<and>
   abortedBeforeSync (Reconcile badRemoteRangeEnv node1 hub0) hub0 \<and>
   CallAddRemoteSubnetInfo RouteV4
     \<lparr>r_cidr = ''10.0.0.0/24'', r_gateway = ''10.0.0.1'', r_startIP = ''10.0.0.10'',
      r_endIP = ''10.0.0.200'', r_excludeIPs = [], r_isOverlay = False\<rparr>
     (Some (Collaborator ''RemoteSubnetConflict''))
     \<in> set (callsOf (Reconcile conflictEnv node1 hub0)) \<and>
   abortedBeforeSync (Reconcile conflictEnv node1 hub0) hub0 \<and>
   syncCalls (callsOf (Reconcile sampleEnv node1 hub0)) = [(RouteV4, None), (RouteV6, None)] \<and>
   fst (stageDesiredState sampleEnv node1 hub0) = None \<and>
   length (addedSubnetInfos (callsOf (Reconcile sampleEnv node1 hub0))) = 2 \<and>
   length (addedRemoteSubnetInfos (callsOf (Reconcile sampleEnv node1 hub0))) = 1"
proof -
  have h1: "isl (ListSubnets listFailsEnv)"
    by (simp add: sample_defs)
  from staging_failure_aborts_before_sync [of listFailsEnv node1 hub0] h1
  have a1: "abortedBeforeSync (Reconcile listFailsEnv node1 hub0) hub0" by blast
  have l2: "ListSubnets noNetworkEnv = Inr [subnetA, subnetC]"
    by (simp add: noNetworkEnv_def sampleEnv_def)
  have h2: "isl (GetNetwork noNetworkEnv (subnet_Network subnetA))"
    by (simp add: noNetworkEnv_def sampleEnv_def)
  from staging_failure_aborts_before_sync [of noNetworkEnv node1 hub0] l2 h2
  have a2: "abortedBeforeSync (Reconcile noNetworkEnv node1 hub0) hub0" by fastforce
  have l3: "ListSubnets badRangeEnv = Inr [subnetA, subnetBad]"
    by (simp add: badRangeEnv_def sampleEnv_def)
  have h3: "isl (parseSubnetSpecRangeMeta badRangeEnv (subnet_Range subnetBad))"
    by (simp add: sample_defs)
  from staging_failure_aborts_before_sync [of badRangeEnv node1 hub0] l3 h3
  have a3: "abortedBeforeSync (Reconcile badRangeEnv node1 hub0) hub0" by fastforce
  have h4: "CallEnsureVlanIf ''eth0'' None (Inl (Collaborator ''InterfaceProvisionError''))
     \<in> set (callsOf (Reconcile noNetIDEnv node1 hub0))"
    by (simp add: reconciler_defs sample_defs)
  from staging_failure_aborts_before_sync [of noNetIDEnv node1 hub0] h4
  have a4: "abortedBeforeSync (Reconcile noNetIDEnv node1 hub0) hub0" by blast
  have m5: "MultiClusterEnabled remoteListFailsEnv"
    by (simp add: sample_defs)
  have h5: "isl (ListRemoteSubnets remoteListFailsEnv)"
    by (simp add: sample_defs)
  from staging_failure_aborts_before_sync [of remoteListFailsEnv node1 hub0] m5 h5
  have a5: "abortedBeforeSync (Reconcile remoteListFailsEnv node1 hub0) hub0" by blast
  have m6: "MultiClusterEnabled badRemoteRangeEnv"
    by (simp add: sample_defs)
  have l6: "ListRemoteSubnets badRemoteRangeEnv = Inr [remoteR, remoteBad]"
    by (simp add: badRemoteRangeEnv_def sampleEnv_def)
  have h6: "isl (parseSubnetSpecRangeMeta badRemoteRangeEnv (remote_Range remoteBad))"
    by (simp add: sample_defs)
  from staging_failure_aborts_before_sync [of badRemoteRangeEnv node1 hub0] m6 l6 h6
  have a6: "abortedBeforeSync (Reconcile badRemoteRangeEnv node1 hub0) hub0" by fastforce
  have h7: "CallAddRemoteSubnetInfo RouteV4
     \<lparr>r_cidr = ''10.0.0.0/24'', r_gateway = ''10.0.0.1'', r_startIP = ''10.0.0.10'',
      r_endIP = ''10.0.0.200'', r_excludeIPs = [], r_isOverlay = False\<rparr>
     (Some (Collaborator ''RemoteSubnetConflict''))
     \<in> set (callsOf (Reconcile conflictEnv node1 hub0))"
    by (simp add: reconciler_defs sample_defs)
  from staging_failure_aborts_before_sync [of conflictEnv node1 hub0] h7
  have a7: "abortedBeforeSync (Reconcile conflictEnv node1 hub0) hub0" by blast
  have h8: "syncCalls (callsOf (Reconcile sampleEnv node1 hub0))
     = [(RouteV4, None), (RouteV6, None)]"
    by (simp add: reconciler_defs sample_defs)
  have l8: "ListSubnets sampleEnv = Inr [subnetA, subnetC]"
    by (simp add: sampleEnv_def)
  have r8: "ListRemoteSubnets sampleEnv = Inr [remoteR]" and m8: "MultiClusterEnabled sampleEnv"
    by (simp_all add: sampleEnv_def)
  from staging_failure_aborts_before_sync [of sampleEnv node1 hub0] h8 l8 r8 m8
  have a8: "fst (stageDesiredState sampleEnv node1 hub0) = None \<and>
   length (addedSubnetInfos (callsOf (Reconcile sampleEnv node1 hub0))) = 2 \<and>
   length (addedRemoteSubnetInfos (callsOf (Reconcile sampleEnv node1 hub0))) = 1"
    by simp
  from h1 a1 h2 a2 h3 a3 h4 a4 h5 a5 h6 a6 h7 a7 h8 a8 show ?thesis by blast
qed

text \<open>
  Claim C6. The remote subnets are listed and handed to a Route Manager only when
  multi-cluster federation is enabled. When a call of \<^verbatim>\<open>AddRemoteSubnetInfo\<close> fails
  (as it does for a remote subnet whose CIDR collides with a registered entry), the
  pass returns the error of that call and asks for a requeue, \<^verbatim>\<open>SyncRoutes\<close> has not
  been called, and the kernel routing state is the one the pass started with.
\<close>

theorem remote_subnets_only_with_federation:
  "(\<not> MultiClusterEnabled env \<longrightarrow>
      CallListRemoteSubnets \<notin> set (callsOf (Reconcile env cfg s)) \<and>
      addedRemoteSubnetInfos (callsOf (Reconcile env cfg s)) = [])
   \<and> (CallAddRemoteSubnetInfo m info (Some err) \<in> set (callsOf (Reconcile env cfg s)) \<longrightarrow>
        fst (Reconcile env cfg s) = (\<lparr>Requeue = True\<rparr>, Some (FailedToAddRemoteSubnetInfo err)) \<and>
        syncCalls (callsOf (Reconcile env cfg s)) = [] \<and>
        routes (hubOf (Reconcile env cfg s)) = routes s)"
proof (intro conjI impI)
  assume single: "\<not> MultiClusterEnabled env"
  from Reconcile_calls [of env cfg s] obtain evs1 where
    e: "callsOf (Reconcile env cfg s) = callsOf (stageDesiredState env cfg s) @ evs1" and
    n: "\<forall>ev\<in>set evs1. \<not> stagingCall ev"
    by blast
  from n remoteCall_staging have n1: "\<forall>ev\<in>set evs1. \<not> remoteCall ev" by blast
  with stage_single_cluster [OF single, of cfg s] e
  have all: "\<forall>ev\<in>set (callsOf (Reconcile env cfg s)). \<not> remoteCall ev" by auto
  then show "CallListRemoteSubnets \<notin> set (callsOf (Reconcile env cfg s))" by auto
  from all show "addedRemoteSubnetInfos (callsOf (Reconcile env cfg s)) = []"
    by (rule not_remoteCall_no_remote)
next
  assume call: "CallAddRemoteSubnetInfo m info (Some err) \<in> set (callsOf (Reconcile env cfg s))"
  from Reconcile_staging_calls [OF call]
  have "CallAddRemoteSubnetInfo m info (Some err) \<in> set (callsOf (stageDesiredState env cfg s))"
    by simp
  from stage_add_remote_failure [OF this]
  have f: "fst (stageDesiredState env cfg s) = Some (FailedToAddRemoteSubnetInfo err)" .
  then obtain evs s1 where
    st: "stageDesiredState env cfg s = (Some (FailedToAddRemoteSubnetInfo err), evs, s1)"
    by (cases "stageDesiredState env cfg s") auto
  from Reconcile_stage_failed [OF st]
  show "fst (Reconcile env cfg s) = (\<lparr>Requeue = True\<rparr>, Some (FailedToAddRemoteSubnetInfo err))"
    by simp
  from f have "fst (stageDesiredState env cfg s) \<noteq> None" by simp
  from Reconcile_stage_failed_aborted [OF this]
  show "syncCalls (callsOf (Reconcile env cfg s)) = []"
    and "routes (hubOf (Reconcile env cfg s)) = routes s"
    by (simp_all add: abortedBeforeSync_def)
qed

theorem remote_subnets_only_with_federation_witness:
  "\<not> MultiClusterEnabled singleClusterEnv \<and>
   CallListRemoteSubnets \<notin> set (callsOf (Reconcile singleClusterEnv node1 hub0)) \<and>
   addedRemoteSubnetInfos (callsOf (Reconcile singleClusterEnv node1 hub0)) = [] \<and>
   CallAddRemoteSubnetInfo RouteV4
     \<lparr>r_cidr = ''10.0.0.0/24'', r_gateway = ''10.0.0.1'', r_startIP = ''10.0.0.10'',
      r_endIP = ''10.0.0.200'', r_excludeIPs = [], r_isOverlay = False\<rparr>
     (Some (Collaborator ''RemoteSubnetConflict''))
     \<in> set (callsOf (Reconcile conflictEnv node1 hub0)) \<and>
   fst (Reconcile conflictEnv node1 hub0)
     = (\<lparr>Requeue = True\<rparr>,
        Some (FailedToAddRemoteSubnetInfo (Collaborator ''RemoteSubnetConflict''))) \<and>
   syncCalls (callsOf (Reconcile conflictEnv node1 hub0)) = [] \<and>
   routes (hubOf (Reconcile conflictEnv node1 hub0)) = [(RouteV4, ''192.168.0.0/16'')]"
proof -
  have h1: "\<not> MultiClusterEnabled singleClusterEnv"
    by (simp add: sample_defs)
  have h2: "CallAddRemoteSubnetInfo RouteV4
     \<lparr>r_cidr = ''10.0.0.0/24'', r_gateway = ''10.0.0.1'', r_startIP = ''10.0.0.10'',
      r_endIP = ''10.0.0.200'', r_excludeIPs = [], r_isOverlay = False\<rparr>
     (Some (Collaborator ''RemoteSubnetConflict''))
     \<in> set (callsOf (Reconcile conflictEnv node1 hub0))"
    by (simp add: reconciler_defs sample_defs)
  have r: "routes hub0 = [(RouteV4, ''192.168.0.0/16'')]"
    by (simp add: hub0_def)
  from remote_subnets_only_with_federation [of singleClusterEnv node1 hub0] h1
  have a: "CallListRemoteSubnets \<notin> set (callsOf (Reconcile singleClusterEnv node1 hub0)) \<and>
   addedRemoteSubnetInfos (callsOf (Reconcile singleClusterEnv node1 hub0)) = []"
    by blast
  from remote_subnets_only_with_federation [of conflictEnv node1 hub0 RouteV4 _
      "Collaborator ''RemoteSubnetConflict''"] h2 r
  have b: "fst (Reconcile conflictEnv node1 hub0)
     = (\<lparr>Requeue = True\<rparr>,
        Some (FailedToAddRemoteSubnetInfo (Collaborator ''RemoteSubnetConflict''))) \<and>
   syncCalls (callsOf (Reconcile conflictEnv node1 hub0)) = [] \<and>
   routes (hubOf (Reconcile conflictEnv node1 hub0)) = [(RouteV4, ''192.168.0.0/16'')]"
    by simp
  from h1 h2 a b show ?thesis by blast
qed

end
